theory Spec2Isabelle
  imports Complex_Main "HOL-Library.Multiset" "HOL-Library.Sublist"
begin

section \<open>Python values\<close>

text \<open>
  The provider responses are JSON documents; \<^verbatim>\<open>response.json()\<close> turns them into
  Python values. \<open>JNull\<close> is Python's \<^verbatim>\<open>None\<close>, a \<open>JObj\<close> is a \<^verbatim>\<open>dict\<close> (an association
  list, looked up with \<open>map_of\<close>), a \<open>JArr\<close> is a \<^verbatim>\<open>list\<close>. Strings are the UTF-8 bytes of
  the Python string. A Python \<^verbatim>\<open>float\<close> is modelled by the real number it denotes: the
  IEEE values NaN and infinity have no counterpart here.
\<close>

datatype json =
    JNull
  | JBool bool
  | JInt int
  | JFloat real
  | JStr string
  | JArr "json list"
  | JObj "(string \<times> json) list"

datatype py_exn =
    RequestException
  | JSONDecodeError
  | AttributeError
  | TypeError
  | ValueError
  | KeyError string
  | GraphRecursionError

text \<open>Sequencing of code that may raise: the first exception ends the computation.\<close>

definition exn_bind :: "py_exn + 'a \<Rightarrow> ('a \<Rightarrow> py_exn + 'b) \<Rightarrow> py_exn + 'b" where
  "exn_bind m f = (case m of Inl e \<Rightarrow> Inl e | Inr x \<Rightarrow> f x)"

text \<open>\<^verbatim>\<open>v.get(k, dflt)\<close>: the value under the key, or the default; only a dict has the method.\<close>

definition dict_get :: "(string \<times> json) list \<Rightarrow> string \<Rightarrow> json \<Rightarrow> json" where
  "dict_get d k dflt = (case map_of d k of None \<Rightarrow> dflt | Some v \<Rightarrow> v)"

fun get :: "json \<Rightarrow> string \<Rightarrow> json \<Rightarrow> py_exn + json" where
  "get (JObj d) k dflt = Inr (dict_get d k dflt)"
| "get _ k dflt = Inl AttributeError"

text \<open>Truth value of a Python object, and \<^verbatim>\<open>a or b\<close>.\<close>

fun truthy :: "json \<Rightarrow> bool" where
  "truthy JNull = False"
| "truthy (JBool b) = b"
| "truthy (JInt i) = (i \<noteq> 0)"
| "truthy (JFloat r) = (r \<noteq> 0)"
| "truthy (JStr s) = (s \<noteq> [])"
| "truthy (JArr xs) = (xs \<noteq> [])"
| "truthy (JObj d) = (d \<noteq> [])"

definition py_or :: "json \<Rightarrow> json \<Rightarrow> json" where
  "py_or a b = (if truthy a then a else b)"

text \<open>
  \<^verbatim>\<open>float(v)\<close>. The conversion of a string is Python's own parser, a parameter
  \<open>fos\<close> of the model (\<open>None\<close> where Python raises \<^verbatim>\<open>ValueError\<close>). Outside the model:
  the strings that Python converts to NaN or to an infinity, and the \<^verbatim>\<open>OverflowError\<close> of an
  integer too large for a float.
\<close>

fun py_float :: "(string \<Rightarrow> real option) \<Rightarrow> json \<Rightarrow> py_exn + real" where
  "py_float fos JNull = Inl TypeError"
| "py_float fos (JBool b) = Inr (if b then 1 else 0)"
| "py_float fos (JInt i) = Inr (real_of_int i)"
| "py_float fos (JFloat r) = Inr r"
| "py_float fos (JStr s) = (case fos s of None \<Rightarrow> Inl ValueError | Some r \<Rightarrow> Inr r)"
| "py_float fos (JArr xs) = Inl TypeError"
| "py_float fos (JObj d) = Inl TypeError"

text \<open>
  The items visited by \<^verbatim>\<open>for p in v[:5]\<close>: a list gives its first five elements, a
  string its first characters (one-character strings); nothing else can be sliced. The
  class of an exception raised in a client shows only in the line the client prints.
\<close>

fun slice5 :: "json \<Rightarrow> py_exn + json list" where
  "slice5 (JArr xs) = Inr (take 5 xs)"
| "slice5 (JStr s) = Inr (map (\<lambda>c. JStr [c]) (take 5 s))"
| "slice5 _ = Inl TypeError"

section \<open>Product records\<close>

text \<open>
  A product is a dict with the keys \<^verbatim>\<open>title\<close>, \<^verbatim>\<open>price\<close>, \<^verbatim>\<open>rating\<close> and \<^verbatim>\<open>link\<close>. A field
  is \<open>None\<close> when the dict has no such key, and \<open>Some JNull\<close> when the key holds
  Python's \<^verbatim>\<open>None\<close>. A rating, when present, is a float.
\<close>

record product =
  title :: "json option"
  price :: "json option"
  rating :: "real option"
  link :: "json option"

definition rupee :: string where
  "rupee = [CHR 0xE2, CHR 0x82, CHR 0xB9]"

definition fallback_amazon :: "product list" where
  "fallback_amazon =
     [\<lparr>title = Some (JStr ''Fallback Product A''), price = Some (JStr (rupee @ ''50,000'')),
       rating = Some 4.3, link = Some (JStr ''https://amazon.in/fallback-a'')\<rparr>,
      \<lparr>title = Some (JStr ''Fallback Product B''), price = Some (JStr (rupee @ ''45,000'')),
       rating = Some 4.1, link = Some (JStr ''https://amazon.in/fallback-b'')\<rparr>]"

definition fallback_google :: "product list" where
  "fallback_google =
     [\<lparr>title = Some (JStr ''Fallback Google Product A''), price = Some (JStr (rupee @ ''48,000'')),
       rating = Some 4.0, link = Some (JStr ''https://google.com/fallback-a'')\<rparr>,
      \<lparr>title = Some (JStr ''Fallback Google Product B''), price = Some (JStr (rupee @ ''52,000'')),
       rating = Some 4.2, link = Some (JStr ''https://google.com/fallback-b'')\<rparr>]"

section \<open>The outside world\<close>

text \<open>
  \<^verbatim>\<open>requests.get\<close> either raises (connection error, timeout) or returns a response
  with a status code and a body; \<^verbatim>\<open>response.json()\<close> raises when the body is not JSON
  (body \<open>None\<close>).
\<close>

record request =
  url :: string
  headers :: "(string \<times> string option) list"
  params :: "(string \<times> string option) list"
  timeout :: nat

datatype http_result = Raises | Response int "json option"

datatype log_line = AmazonError py_exn | GoogleError py_exn

datatype st_call = st_title string | st_subheader string | st_markdown string | st_warning string

text \<open>
  What a run leaves behind: the requests sent, the lines printed, the Streamlit calls made.
\<close>

record world =
  network_log :: "request list"
  console :: "log_line list"
  page :: "st_call list"

text \<open>
  What the module reads from its surroundings: the two API keys of the environment, the
  network, and two Python built-ins (\<^verbatim>\<open>float\<close> on a string, and the text of a value that
  is not a string inside an f-string).
\<close>

record runtime =
  RAPIDAPI_KEY :: "string option"
  SERPAPI_KEY :: "string option"
  requests_get :: "request \<Rightarrow> http_result"
  float_of_str :: "string \<Rightarrow> real option"
  repr :: "json \<Rightarrow> string"

definition send :: "runtime \<Rightarrow> request \<Rightarrow> world \<Rightarrow> http_result \<times> world" where
  "send rt req w = (requests_get rt req, w\<lparr>network_log := network_log w @ [req]\<rparr>)"

section \<open>Provider clients\<close>

text \<open>The loop \<^verbatim>\<open>for p in items: products.append(f(p))\<close>.\<close>

fun collect :: "(json \<Rightarrow> py_exn + product) \<Rightarrow> json list \<Rightarrow> product list \<Rightarrow> py_exn + product list" where
  "collect f [] products = Inr products"
| "collect f (p # ps) products = exn_bind (f p) (\<lambda>r. collect f ps (products @ [r]))"

definition amazon_request :: "runtime \<Rightarrow> string \<Rightarrow> request" where
  "amazon_request rt query =
     \<lparr>url = ''https://real-time-amazon-data.p.rapidapi.com/search'',
      headers = [(''X-RapidAPI-Key'', RAPIDAPI_KEY rt),
                 (''X-RapidAPI-Host'', Some ''real-time-amazon-data.p.rapidapi.com'')],
      params = [(''country'', Some ''IN''), (''query'', Some query), (''page'', Some ''1''),
                (''sort_by'', Some ''RELEVANCE''), (''product_condition'', Some ''ALL'')],
      timeout = 10\<rparr>"

definition amazon_product :: "runtime \<Rightarrow> json \<Rightarrow> py_exn + product" where
  "amazon_product rt p =
     exn_bind (get p ''product_title'' JNull) (\<lambda>t.
     exn_bind (get p ''product_price'' JNull) (\<lambda>pr.
     exn_bind (get p ''product_star_rating'' (JStr ''0'')) (\<lambda>sr.
     exn_bind (py_float (float_of_str rt) (py_or sr (JInt 0))) (\<lambda>r.
     exn_bind (get p ''product_url'' JNull) (\<lambda>u.
     Inr \<lparr>title = Some t, price = Some pr, rating = Some r,
          link = Some (py_or u (JStr ''Link not available''))\<rparr>)))))"

text \<open>
  The loop over the response, lines 46 to 53:
  \<^verbatim>\<open>for p in data.get("data", {}).get("products", [])[:5]: products.append({...})\<close>.
\<close>

definition amazon_parse :: "runtime \<Rightarrow> json \<Rightarrow> py_exn + product list" where
  "amazon_parse rt data =
     exn_bind (get data ''data'' (JObj [])) (\<lambda>d.
     exn_bind (get d ''products'' (JArr [])) (\<lambda>ps.
     exn_bind (slice5 ps) (\<lambda>items.
     collect (amazon_product rt) items [])))"

text \<open>The body of the \<^verbatim>\<open>try\<close> block of \<^verbatim>\<open>search_amazon_products\<close>.\<close>

definition amazon_try :: "runtime \<Rightarrow> string \<Rightarrow> world \<Rightarrow> (py_exn + product list) \<times> world" where
  "amazon_try rt query w =
     (case send rt (amazon_request rt query) w of
        (Raises, w') \<Rightarrow> (Inl RequestException, w')
      | (Response status_code body, w') \<Rightarrow>
          (if status_code = 200 then
             (case body of
                None \<Rightarrow> Inl JSONDecodeError
              | Some data \<Rightarrow>
                  exn_bind (amazon_parse rt data) (\<lambda>products.
                  Inr (if products \<noteq> [] then products else fallback_amazon)))
           else Inr fallback_amazon, w'))"

text \<open>
  The \<^verbatim>\<open>except Exception\<close> clause: whatever the body raised is printed, and the fallback
  list is returned. The \<^verbatim>\<open>@tool\<close> decorator is taken to pass a call through to the function
  it wraps, as the stages call it.
\<close>

definition search_amazon_products :: "runtime \<Rightarrow> string \<Rightarrow> world \<Rightarrow> product list \<times> world" where
  "search_amazon_products rt query w =
     (case amazon_try rt query w of
        (Inr products, w') \<Rightarrow> (products, w')
      | (Inl e, w') \<Rightarrow> (fallback_amazon, w'\<lparr>console := console w' @ [AmazonError e]\<rparr>))"

definition google_request :: "runtime \<Rightarrow> string \<Rightarrow> request" where
  "google_request rt query =
     \<lparr>url = ''https://serpapi.com/search.json'',
      headers = [],
      params = [(''q'', Some query), (''engine'', Some ''google_shopping''), (''hl'', Some ''en''),
                (''gl'', Some ''in''), (''api_key'', SERPAPI_KEY rt)],
      timeout = 10\<rparr>"

definition google_product :: "runtime \<Rightarrow> json \<Rightarrow> py_exn + product" where
  "google_product rt item =
     exn_bind (get item ''title'' JNull) (\<lambda>t.
     exn_bind (get item ''price'' (JStr ''N/A'')) (\<lambda>pr.
     exn_bind (get item ''rating'' (JFloat 0.0)) (\<lambda>rv.
     exn_bind (py_float (float_of_str rt) rv) (\<lambda>r.
     exn_bind (get item ''link'' JNull) (\<lambda>l.
     Inr \<lparr>title = Some t, price = Some pr, rating = Some r, link = Some l\<rparr>)))))"

definition google_parse :: "runtime \<Rightarrow> json \<Rightarrow> py_exn + product list" where
  "google_parse rt data =
     exn_bind (get data ''shopping_results'' (JArr [])) (\<lambda>rs.
     exn_bind (slice5 rs) (\<lambda>items.
     collect (google_product rt) items []))"

text \<open>
  The body of the \<^verbatim>\<open>try\<close> block of \<^verbatim>\<open>search_google_shopping\<close>; on another status
  than 200 \<^verbatim>\<open>products\<close> stays empty.
\<close>

definition google_try :: "runtime \<Rightarrow> string \<Rightarrow> world \<Rightarrow> (py_exn + product list) \<times> world" where
  "google_try rt query w =
     (case send rt (google_request rt query) w of
        (Raises, w') \<Rightarrow> (Inl RequestException, w')
      | (Response status_code body, w') \<Rightarrow>
          (exn_bind (if status_code = 200 then
                       (case body of
                          None \<Rightarrow> Inl JSONDecodeError
                        | Some data \<Rightarrow> google_parse rt data)
                     else Inr [])
             (\<lambda>products. Inr (if products \<noteq> [] then products else fallback_google)), w'))"

definition search_google_shopping :: "runtime \<Rightarrow> string \<Rightarrow> world \<Rightarrow> product list \<times> world" where
  "search_google_shopping rt query w =
     (case google_try rt query w of
        (Inr products, w') \<Rightarrow> (products, w')
      | (Inl e, w') \<Rightarrow> (fallback_google, w'\<lparr>console := console w' @ [GoogleError e]\<rparr>))"

section \<open>Pipeline state and stages\<close>

text \<open>
  The state is a dict with the required key \<^verbatim>\<open>user_input\<close>; each other key is absent (or
  holds \<^verbatim>\<open>None\<close>) until a stage writes it: both are \<open>None\<close> here, and the code reads them
  only through \<^verbatim>\<open>state.get(k) or []\<close>, which does not tell them apart.
\<close>

record ProductSearchState =
  user_input :: string
  amazon_products :: "product list option"
  google_products :: "product list option"
  ranked_products :: "product list option"
  output_summary :: "string option"

text \<open>
  A stage returns a dict holding the keys it writes: a list of key-value pairs, in the
  order of the dict literal. The graph stores each pair into the state.
\<close>

datatype field_write =
    W_user_input string
  | W_amazon_products "product list"
  | W_google_products "product list"
  | W_ranked_products "product list"
  | W_output_summary string

fun key_of :: "field_write \<Rightarrow> string" where
  "key_of (W_user_input v) = ''user_input''"
| "key_of (W_amazon_products v) = ''amazon_products''"
| "key_of (W_google_products v) = ''google_products''"
| "key_of (W_ranked_products v) = ''ranked_products''"
| "key_of (W_output_summary v) = ''output_summary''"

fun store :: "ProductSearchState \<Rightarrow> field_write \<Rightarrow> ProductSearchState" where
  "store s (W_user_input v) = s\<lparr>user_input := v\<rparr>"
| "store s (W_amazon_products v) = s\<lparr>amazon_products := Some v\<rparr>"
| "store s (W_google_products v) = s\<lparr>google_products := Some v\<rparr>"
| "store s (W_ranked_products v) = s\<lparr>ranked_products := Some v\<rparr>"
| "store s (W_output_summary v) = s\<lparr>output_summary := Some v\<rparr>"

definition update :: "ProductSearchState \<Rightarrow> field_write list \<Rightarrow> ProductSearchState" where
  "update s ws = foldl store s ws"

definition extract_product :: "ProductSearchState \<Rightarrow> field_write list" where
  "extract_product state = [W_user_input (user_input state)]"

definition search_amazon :: "runtime \<Rightarrow> ProductSearchState \<Rightarrow> world \<Rightarrow> field_write list \<times> world" where
  "search_amazon rt state w =
     (case search_amazon_products rt (user_input state) w of
        (products, w') \<Rightarrow> ([W_amazon_products products], w'))"

definition search_google :: "runtime \<Rightarrow> ProductSearchState \<Rightarrow> world \<Rightarrow> field_write list \<times> world" where
  "search_google rt state w =
     (case search_google_shopping rt (user_input state) w of
        (products, w') \<Rightarrow> ([W_google_products products], w'))"

section \<open>Ranking and summary\<close>

text \<open>
  \<^verbatim>\<open>sorted(xs, key=f, reverse=True)\<close>: a stable sort with every comparison reversed.
  An element goes in front of the first element whose key is not greater than its own;
  the elements are inserted from the last to the first, so that of two elements with the
  same key the earlier one ends in front.
\<close>

fun insert_reverse :: "('a \<Rightarrow> real) \<Rightarrow> 'a \<Rightarrow> 'a list \<Rightarrow> 'a list" where
  "insert_reverse f x [] = [x]"
| "insert_reverse f x (y # ys) = (if f y \<le> f x then x # y # ys else y # insert_reverse f x ys)"

definition sorted_reverse :: "('a \<Rightarrow> real) \<Rightarrow> 'a list \<Rightarrow> 'a list" where
  "sorted_reverse f xs = foldr (insert_reverse f) xs []"

text \<open>The sort key \<^verbatim>\<open>lambda x: x.get("rating", 0.0)\<close>.\<close>

definition rating_key :: "product \<Rightarrow> real" where
  "rating_key x = (case rating x of None \<Rightarrow> 0.0 | Some r \<Rightarrow> r)"

text \<open>\<^verbatim>\<open>state.get(k) or []\<close>.\<close>

definition or_empty :: "'a list option \<Rightarrow> 'a list" where
  "or_empty v = (case v of None \<Rightarrow> [] | Some xs \<Rightarrow> (if xs \<noteq> [] then xs else []))"

text \<open>The decimal digits of a number, as \<^verbatim>\<open>{i}\<close> prints it.\<close>

function str_of_nat :: "nat \<Rightarrow> string" where
  "str_of_nat n =
     (if n < 10 then [''0123456789'' ! n]
      else str_of_nat (n div 10) @ [''0123456789'' ! (n mod 10)])"
  by pat_completeness auto
termination
  by (relation "measure id") auto

declare str_of_nat.simps [simp del]

text \<open>
  The text of \<^verbatim>\<open>{v}\<close> inside an f-string: a string is inserted as it is, any other value
  through the built-in conversion.
\<close>

definition format_value :: "runtime \<Rightarrow> json \<Rightarrow> string" where
  "format_value rt v = (case v of JStr s \<Rightarrow> s | _ \<Rightarrow> repr rt v)"

text \<open>\<^verbatim>\<open>p[k]\<close> raises \<^verbatim>\<open>KeyError\<close> on a missing key.\<close>

definition subscript :: "string \<Rightarrow> 'a option \<Rightarrow> py_exn + 'a" where
  "subscript k v = (case v of None \<Rightarrow> Inl (KeyError k) | Some x \<Rightarrow> Inr x)"

definition star :: string where
  "star = [CHR 0xE2, CHR 0xAD, CHR 0x90]"

definition magnifier :: string where
  "magnifier = [CHR 0xF0, CHR 0x9F, CHR 0x94, CHR 0x8D]"

definition cart :: string where
  "cart = [CHR 0xF0, CHR 0x9F, CHR 0x9B, CHR 0x92]"

definition trophy :: string where
  "trophy = [CHR 0xF0, CHR 0x9F, CHR 0x8F, CHR 0x86]"

text \<open>
  The text of one item line,
  \<^verbatim>\<open>f"{i}. {p['title']} - {p['price']} - {p['rating']} * [Amazon]\n   Link: {p['link']}"\<close>
  (the star stands for the star emoji), from the values it inserts; \<open>tag\<close> is the text
  between the star and the line break, which differs between the three sections.
\<close>

definition line_text :: "runtime \<Rightarrow> string \<Rightarrow> nat \<Rightarrow> json \<Rightarrow> json \<Rightarrow> real \<Rightarrow> json \<Rightarrow> string" where
  "line_text rt tag i t pr r l =
     str_of_nat i @ ''. '' @ format_value rt t @ '' - '' @ format_value rt pr @ '' - ''
     @ format_value rt (JFloat r) @ '' '' @ star @ tag @ [CHR 0x0A] @ ''   Link: ''
     @ format_value rt l"

text \<open>The four subscripts are evaluated from left to right; the first missing key raises.\<close>

definition item_line :: "runtime \<Rightarrow> string \<Rightarrow> nat \<Rightarrow> product \<Rightarrow> py_exn + string" where
  "item_line rt tag i p =
     exn_bind (subscript ''title'' (title p)) (\<lambda>t.
     exn_bind (subscript ''price'' (price p)) (\<lambda>pr.
     exn_bind (subscript ''rating'' (rating p)) (\<lambda>r.
     exn_bind (subscript ''link'' (link p)) (\<lambda>l.
     Inr (line_text rt tag i t pr r l)))))"

text \<open>The loop \<^verbatim>\<open>for i, p in enumerate(ps, 1): summary_lines.append(...)\<close>, from index \<open>i\<close>.\<close>

fun append_items :: "runtime \<Rightarrow> string \<Rightarrow> nat \<Rightarrow> product list \<Rightarrow> string list \<Rightarrow> py_exn + string list" where
  "append_items rt tag i [] summary_lines = Inr summary_lines"
| "append_items rt tag i (p # ps) summary_lines =
     exn_bind (item_line rt tag i p) (\<lambda>l. append_items rt tag (Suc i) ps (summary_lines @ [l]))"

text \<open>\<^verbatim>\<open>sep.join(lines)\<close>.\<close>

fun join :: "string \<Rightarrow> string list \<Rightarrow> string" where
  "join sep [] = []"
| "join sep [l] = l"
| "join sep (l # ls) = l @ sep @ join sep ls"

definition query_line :: "string \<Rightarrow> string" where
  "query_line q = magnifier @ '' **Extracted product name:** '' @ q"

definition amazon_header :: string where
  "amazon_header = ''--- '' @ cart @ '' **Amazon Products** ---''"

definition google_header :: string where
  "google_header = ''--- '' @ cart @ '' **Google Products** ---''"

definition top_header :: string where
  "top_header = ''=== '' @ trophy @ '' **Top 3 Products Overall** ===''"

definition rank_products :: "runtime \<Rightarrow> ProductSearchState \<Rightarrow> py_exn + field_write list" where
  "rank_products rt state =
     (let amazon = or_empty (amazon_products state);
          google = or_empty (google_products state);
          all_products = amazon @ google;
          ranked = take 3 (sorted_reverse rating_key all_products);
          summary_lines = [query_line (user_input state), []]
      in
        exn_bind (append_items rt '' [Amazon]'' 1 amazon (summary_lines @ [amazon_header])) (\<lambda>lines1.
        exn_bind (append_items rt '' [Google]'' 1 google (lines1 @ [google_header])) (\<lambda>lines2.
        exn_bind (append_items rt [] 1 ranked (lines2 @ [top_header])) (\<lambda>lines3.
        Inr [W_ranked_products ranked, W_output_summary (join [CHR 0x0A] lines3)]))))"

section \<open>The graph\<close>

text \<open>
  The graph built by \<^verbatim>\<open>builder\<close>: named nodes, an entry point and one edge out of each
  node. Every node is given the same shape here: it reads the state, may act on the world,
  and returns the pairs it writes or raises.
\<close>

type_synonym node = "runtime \<Rightarrow> ProductSearchState \<Rightarrow> world \<Rightarrow> (py_exn + field_write list) \<times> world"

definition END :: string where
  "END = ''__end__''"

definition nodes :: "(string \<times> node) list" where
  "nodes =
     [(''extract_product'', \<lambda>rt state w. (Inr (extract_product state), w)),
      (''search_amazon'', \<lambda>rt state w. (case search_amazon rt state w of (ws, w') \<Rightarrow> (Inr ws, w'))),
      (''search_google'', \<lambda>rt state w. (case search_google rt state w of (ws, w') \<Rightarrow> (Inr ws, w'))),
      (''rank_products'', \<lambda>rt state w. (rank_products rt state, w))]"

definition entry_point :: string where
  "entry_point = ''extract_product''"

definition edges :: "(string \<times> string) list" where
  "edges =
     [(''extract_product'', ''search_amazon''),
      (''search_amazon'', ''search_google''),
      (''search_google'', ''rank_products''),
      (''rank_products'', END)]"

text \<open>
  Running the compiled graph from a node: the node runs on the current state, its writes
  are stored, and the run goes on along the node's edge until \<open>END\<close>. The first argument
  bounds the number of steps, as the library's recursion limit (25) does. The list of names
  records the nodes that ran, in order.
\<close>

fun run_from :: "nat \<Rightarrow> runtime \<Rightarrow> string \<Rightarrow> string list \<times> ProductSearchState \<Rightarrow> world
    \<Rightarrow> (py_exn + string list \<times> ProductSearchState) \<times> world" where
  "run_from 0 rt n (trace, state) w =
     (if n = END then (Inr (trace, state), w) else (Inl GraphRecursionError, w))"
| "run_from (Suc k) rt n (trace, state) w =
     (if n = END then (Inr (trace, state), w)
      else
        (case map_of nodes n of
           None \<Rightarrow> (Inl (KeyError n), w)
         | Some f \<Rightarrow>
             (case f rt state w of
                (Inl e, w') \<Rightarrow> (Inl e, w')
              | (Inr ws, w') \<Rightarrow>
                  (case map_of edges n of
                     None \<Rightarrow> (Inr (trace @ [n], update state ws), w')
                   | Some n' \<Rightarrow> run_from k rt n' (trace @ [n], update state ws) w'))))"

definition recursion_limit :: nat where
  "recursion_limit = 25"

definition graph_run :: "runtime \<Rightarrow> ProductSearchState \<Rightarrow> world
    \<Rightarrow> (py_exn + string list \<times> ProductSearchState) \<times> world" where
  "graph_run rt input_state w = run_from recursion_limit rt entry_point ([], input_state) w"

text \<open>\<^verbatim>\<open>graph.invoke(input_state)\<close> returns the final state.\<close>

definition graph_invoke :: "runtime \<Rightarrow> ProductSearchState \<Rightarrow> world
    \<Rightarrow> (py_exn + ProductSearchState) \<times> world" where
  "graph_invoke rt input_state w =
     (case graph_run rt input_state w of
        (Inl e, w') \<Rightarrow> (Inl e, w')
      | (Inr (trace, state), w') \<Rightarrow> (Inr state, w'))"

section \<open>The user interface\<close>

definition show_on_page :: "st_call \<Rightarrow> world \<Rightarrow> world" where
  "show_on_page c w = w\<lparr>page := page w @ [c]\<rparr>"

text \<open>
  \<^verbatim>\<open>run_product_search\<close>: \<open>user_input_text\<close> is what \<^verbatim>\<open>st.text_input\<close> returns and
  \<open>button\<close> what \<^verbatim>\<open>st.button("Search")\<close> returns.
\<close>

definition run_product_search :: "runtime \<Rightarrow> string \<Rightarrow> bool \<Rightarrow> world \<Rightarrow> (py_exn + unit) \<times> world" where
  "run_product_search rt user_input_text button w =
     (let w1 = show_on_page (st_title ''Product Comparison Tool'') w in
      if button then
        (if user_input_text \<noteq> [] then
           (let input_state = \<lparr>user_input = user_input_text, amazon_products = None,
                                google_products = None, ranked_products = None,
                                output_summary = None\<rparr>
            in case graph_invoke rt input_state w1 of
                 (Inl e, w2) \<Rightarrow> (Inl e, w2)
               | (Inr result, w2) \<Rightarrow>
                   (let w3 = show_on_page (st_subheader ''Comparison Summary'') w2 in
                    case subscript ''output_summary'' (output_summary result) of
                      Inl e \<Rightarrow> (Inl e, w3)
                    | Inr summary \<Rightarrow> (Inr (), show_on_page (st_markdown summary) w3)))
         else (Inr (), show_on_page (st_warning ''Please enter a product query.'') w1))
      else (Inr (), w1))"

section \<open>Notions used in the statements\<close>

text \<open>A product record that has all four keys.\<close>

definition has_all_keys :: "product \<Rightarrow> bool" where
  "has_all_keys p = (title p \<noteq> None \<and> price p \<noteq> None \<and> rating p \<noteq> None \<and> link p \<noteq> None)"

text \<open>
  The item lines of one section of the report, for records that have all four keys: one
  line per product, numbered from 1.
\<close>

definition listing :: "runtime \<Rightarrow> string \<Rightarrow> product list \<Rightarrow> string list" where
  "listing rt tag ps =
     map (\<lambda>(i, p). line_text rt tag i (the (title p)) (the (price p)) (the (rating p)) (the (link p)))
       (enumerate 1 ps)"

text \<open>What a stage that returned has written under a key, if anything.\<close>

fun written_ranked :: "field_write list \<Rightarrow> product list option" where
  "written_ranked [] = None"
| "written_ranked (W_ranked_products ps # ws) = Some ps"
| "written_ranked (w # ws) = written_ranked ws"

fun written_summary :: "field_write list \<Rightarrow> string option" where
  "written_summary [] = None"
| "written_summary (W_output_summary t # ws) = Some t"
| "written_summary (w # ws) = written_summary ws"

definition ranked_of :: "py_exn + field_write list \<Rightarrow> product list option" where
  "ranked_of r = (case r of Inl e \<Rightarrow> None | Inr ws \<Rightarrow> written_ranked ws)"

definition summary_of :: "py_exn + field_write list \<Rightarrow> string option" where
  "summary_of r = (case r of Inl e \<Rightarrow> None | Inr ws \<Rightarrow> written_summary ws)"

text \<open>The state and the world once the two search stages have run, one after the other.\<close>

definition searched :: "runtime \<Rightarrow> ProductSearchState \<Rightarrow> world \<Rightarrow> ProductSearchState \<times> world" where
  "searched rt s w =
     (case search_amazon_products rt (user_input s) w of
        (pa, w1) \<Rightarrow>
          (case search_google_shopping rt (user_input s) w1 of
             (pg, w2) \<Rightarrow> (s\<lparr>amazon_products := Some pa, google_products := Some pg\<rparr>, w2)))"

text \<open>The names of the four stages, in the order of the edges.\<close>

definition stage_order :: "string list" where
  "stage_order = [''extract_product'', ''search_amazon'', ''search_google'', ''rank_products'']"

text \<open>A list is in descending order of the key.\<close>

definition descending :: "('a \<Rightarrow> real) \<Rightarrow> 'a list \<Rightarrow> bool" where
  "descending f xs = sorted_wrt (\<lambda>a b. f b \<le> f a) xs"

text \<open>The state a user query starts from.\<close>

definition initial_state :: "string \<Rightarrow> ProductSearchState" where
  "initial_state q = \<lparr>user_input = q, amazon_products = None, google_products = None,
                      ranked_products = None, output_summary = None\<rparr>"

definition empty_world :: world where
  "empty_world = \<lparr>network_log = [], console = [], page = []\<rparr>"

section \<open>Example data\<close>

text \<open>
  Stand-ins for the two built-ins, enough for the examples: the strings and values that
  occur there, converted as Python converts them.
\<close>

definition example_float_of_str :: "string \<Rightarrow> real option" where
  "example_float_of_str s =
     (if s = ''0'' then Some 0 else if s = ''4.5'' then Some 4.5 else None)"

definition example_repr :: "json \<Rightarrow> string" where
  "example_repr v =
     (if v = JFloat 4.5 then ''4.5'' else if v = JFloat 4.0 then ''4.0''
      else if v = JFloat 0 then ''0.0'' else ''None'')"

text \<open>A runtime with the given network, two API keys and the stand-ins above.\<close>

definition example_runtime :: "(request \<Rightarrow> http_result) \<Rightarrow> runtime" where
  "example_runtime net =
     \<lparr>RAPIDAPI_KEY = Some ''key-a'', SERPAPI_KEY = Some ''key-b'', requests_get = net,
      float_of_str = example_float_of_str, repr = example_repr\<rparr>"

definition item_a :: product where
  "item_a = \<lparr>title = Some (JStr ''iPhone 14 (128 GB)''), price = Some (JStr ''61,999''),
             rating = Some 4.5, link = Some (JStr ''https://amazon.in/dp/1'')\<rparr>"

definition item_b :: product where
  "item_b = \<lparr>title = Some (JStr ''Apple iPhone 14''), price = Some (JStr ''59,900''),
             rating = Some 4.0, link = Some (JStr ''https://shop.example/2'')\<rparr>"

definition item_c :: product where
  "item_c = \<lparr>title = Some (JStr ''iPhone 14 case''), price = Some (JStr ''499''),
             rating = Some 4.0, link = Some (JStr ''https://shop.example/3'')\<rparr>"

definition item_d :: product where
  "item_d = \<lparr>title = Some (JStr ''iPhone 14 Plus''), price = Some (JStr ''69,900''),
             rating = Some 4.0, link = Some (JStr ''https://shop.example/4'')\<rparr>"

text \<open>Responses of the two providers that hold one entry each.\<close>

definition amazon_body :: json where
  "amazon_body =
     JObj [(''status'', JStr ''OK''),
           (''data'', JObj [(''products'', JArr
              [JObj [(''product_title'', JStr ''iPhone 14 (128 GB)''),
                     (''product_price'', JStr ''61,999''),
                     (''product_star_rating'', JStr ''4.5''),
                     (''product_url'', JStr ''https://amazon.in/dp/1'')]])])]"

definition google_body :: json where
  "google_body =
     JObj [(''shopping_results'', JArr
              [JObj [(''title'', JStr ''Apple iPhone 14''),
                     (''price'', JStr ''59,900''),
                     (''rating'', JFloat 4.0),
                     (''link'', JStr ''https://shop.example/2'')]])]"

text \<open>Responses whose only entry has a title and nothing else.\<close>

definition amazon_body_sparse :: json where
  "amazon_body_sparse =
     JObj [(''data'', JObj [(''products'', JArr
              [JObj [(''product_title'', JStr ''iPhone 14 (128 GB)'')]])])]"

definition google_body_sparse :: json where
  "google_body_sparse =
     JObj [(''shopping_results'', JArr [JObj [(''title'', JStr ''Apple iPhone 14'')]])]"

text \<open>
  Responses with two entries, of which one has a rating that \<^verbatim>\<open>float\<close> does not accept:
  a text that is not a number for provider A, \<^verbatim>\<open>null\<close> for provider B.
\<close>

definition amazon_body_bad_rating :: json where
  "amazon_body_bad_rating =
     JObj [(''data'', JObj [(''products'', JArr
              [JObj [(''product_title'', JStr ''iPhone 14 (128 GB)''),
                     (''product_price'', JStr ''61,999''),
                     (''product_star_rating'', JStr ''4.5''),
                     (''product_url'', JStr ''https://amazon.in/dp/1'')],
               JObj [(''product_title'', JStr ''iPhone 14 case''),
                     (''product_price'', JStr ''499''),
                     (''product_star_rating'', JStr ''4.5 out of 5''),
                     (''product_url'', JStr ''https://amazon.in/dp/2'')]])])]"

definition google_body_null_rating :: json where
  "google_body_null_rating =
     JObj [(''shopping_results'', JArr
              [JObj [(''title'', JStr ''iPhone 14 case''),
                     (''price'', JStr ''499''),
                     (''rating'', JNull),
                     (''link'', JStr ''https://shop.example/3'')],
               JObj [(''title'', JStr ''Apple iPhone 14''),
                     (''price'', JStr ''59,900''),
                     (''rating'', JFloat 4.0),
                     (''link'', JStr ''https://shop.example/2'')]])]"

text \<open>A network on which both providers answer with status 200 and the bodies given.\<close>

definition answering :: "json \<Rightarrow> json \<Rightarrow> request \<Rightarrow> http_result" where
  "answering a g req =
     (if url req = ''https://real-time-amazon-data.p.rapidapi.com/search''
      then Response 200 (Some a) else Response 200 (Some g))"

text \<open>One product from each provider, rated 4.5 and 4.0.\<close>

definition scenario_state :: ProductSearchState where
  "scenario_state = \<lparr>user_input = ''iPhone 14'', amazon_products = Some [item_a],
                      google_products = Some [item_b], ranked_products = None,
                      output_summary = None\<rparr>"


section \<open>The reversed stable sort\<close>

text \<open>
  Sorting with every comparison reversed is sorting in ascending order of the negated
  key; the facts about the library's stable insertion sort carry over.
\<close>

lemma insert_reverse_insort: "insert_reverse f x ys = insort_key (\<lambda>y. - f y) x ys"
  by (induction ys) auto

lemma sorted_reverse_sort_key: "sorted_reverse f xs = sort_key (\<lambda>y. - f y) xs"
  by (induction xs) (auto simp: sorted_reverse_def insert_reverse_insort)


lemma set_sorted_reverse: "set (sorted_reverse f xs) = set xs"
  by (simp add: sorted_reverse_sort_key)




text \<open>The three properties leave no other list.\<close>

lemma sorted_reverse_unique:
  assumes "mset ys = mset xs" and "descending f ys"
    and "\<forall>k. filter (\<lambda>x. f x = k) ys = filter (\<lambda>x. f x = k) xs"
  shows "ys = sorted_reverse f xs"
proof -
  have "sort_key (\<lambda>y. - f y) xs = ys"
  proof (rule properties_for_sort_key)
    show "mset ys = mset xs"
      by (rule assms(1))
    show "sorted (map (\<lambda>y. - f y) ys)"
      using assms(2) by (simp add: descending_def sorted_map)
    show "filter (\<lambda>x. - f k = - f x) ys = filter (\<lambda>x. - f k = - f x) xs" for k
    proof -
      have "(\<lambda>x. - f k = - f x) = (\<lambda>x. f x = f k)"
        by auto
      then show ?thesis
        using assms(3) by simp
    qed
  qed
  then show ?thesis
    by (simp add: sorted_reverse_sort_key)
qed

text \<open>
  The same list is obtained by reversing, sorting in ascending order with the library's
  stable sort, and reversing again.
\<close>

lemma sorted_reverse_rev: "sorted_reverse f xs = rev (sort_key f (rev xs))"
proof (rule sorted_reverse_unique [symmetric])
  show "mset (rev (sort_key f (rev xs))) = mset xs"
    by simp
  have "sorted (map f (sort_key f (rev xs)))"
    by (rule sorted_sort_key)
  then show "descending f (rev (sort_key f (rev xs)))"
    by (simp add: descending_def sorted_map sorted_wrt_rev)
  show "\<forall>k. filter (\<lambda>x. f x = k) (rev (sort_key f (rev xs))) = filter (\<lambda>x. f x = k) xs"
  proof
    fix k
    have "filter (\<lambda>x. f x = k) (rev (sort_key f (rev xs))) = rev (filter (\<lambda>x. f x = k) (sort_key f (rev xs)))"
      by (simp add: rev_filter)
    also have "\<dots> = rev (filter (\<lambda>x. f x = k) (rev xs))"
      by (simp add: sort_key_stable)
    also have "\<dots> = filter (\<lambda>x. f x = k) xs"
      by (simp add: rev_filter)
    finally show "filter (\<lambda>x. f x = k) (rev (sort_key f (rev xs))) = filter (\<lambda>x. f x = k) xs" .
  qed
qed




subsection \<open>Ties keep the order of the input\<close>



lemma sorted_reverse_Cons: "sorted_reverse f (x # xs) = insert_reverse f x (sorted_reverse f xs)"
  by (simp add: sorted_reverse_def)

lemma sorted_reverse_Nil: "sorted_reverse f [] = []"
  by (simp add: sorted_reverse_def)





section \<open>The rank stage on complete records\<close>

lemma exn_bind_Inr [simp]: "exn_bind (Inr x) f = f x"
  by (simp add: exn_bind_def)

lemma exn_bind_Inl [simp]: "exn_bind (Inl e) f = Inl e"
  by (simp add: exn_bind_def)

lemma item_line_complete:
  "has_all_keys p \<Longrightarrow>
   item_line rt tag i p =
     Inr (line_text rt tag i (the (title p)) (the (price p)) (the (rating p)) (the (link p)))"
  by (auto simp: has_all_keys_def item_line_def subscript_def)

lemma append_items_complete:
  "\<forall>p\<in>set ps. has_all_keys p \<Longrightarrow>
   append_items rt tag i ps acc =
     Inr (acc @ map (\<lambda>(i, p). line_text rt tag i (the (title p)) (the (price p)) (the (rating p)) (the (link p)))
       (enumerate i ps))"
  by (induction ps arbitrary: i acc) (auto simp: item_line_complete)

lemma append_items_listing:
  "\<forall>p\<in>set ps. has_all_keys p \<Longrightarrow> append_items rt tag (Suc 0) ps acc = Inr (acc @ listing rt tag ps)"
  by (simp add: append_items_complete listing_def)

lemma set_take_subset_sorted_reverse: "set (take n (sorted_reverse f xs)) \<subseteq> set xs"
  using set_take_subset [of n "sorted_reverse f xs"] by (simp add: set_sorted_reverse)

lemma rank_products_complete:
  assumes "\<forall>p\<in>set (or_empty (amazon_products s) @ or_empty (google_products s)). has_all_keys p"
  shows "rank_products rt s =
     Inr [W_ranked_products
            (take 3 (sorted_reverse rating_key (or_empty (amazon_products s) @ or_empty (google_products s)))),
          W_output_summary (join [CHR 0x0A]
            ([query_line (user_input s), [], amazon_header]
             @ listing rt '' [Amazon]'' (or_empty (amazon_products s))
             @ [google_header]
             @ listing rt '' [Google]'' (or_empty (google_products s))
             @ [top_header]
             @ listing rt []
                 (take 3 (sorted_reverse rating_key
                    (or_empty (amazon_products s) @ or_empty (google_products s))))))]"
proof -
  let ?a = "or_empty (amazon_products s)"
  let ?g = "or_empty (google_products s)"
  let ?r = "take 3 (sorted_reverse rating_key (?a @ ?g))"
  have a: "\<forall>p\<in>set ?a. has_all_keys p" and g: "\<forall>p\<in>set ?g. has_all_keys p"
    using assms by auto
  have r: "\<forall>p\<in>set ?r. has_all_keys p"
    using assms set_take_subset_sorted_reverse [of 3 rating_key "?a @ ?g"] by blast
  show ?thesis
    unfolding rank_products_def Let_def
    by (simp add: append_items_listing [OF a] append_items_listing [OF g] append_items_listing [OF r]
          del: join.simps)
qed


lemma ranked_of_complete:
  "\<forall>p\<in>set (or_empty (amazon_products s) @ or_empty (google_products s)). has_all_keys p \<Longrightarrow>
   ranked_of (rank_products rt s)
     = Some (take 3 (sorted_reverse rating_key (or_empty (amazon_products s) @ or_empty (google_products s))))"
  by (simp add: rank_products_complete ranked_of_def)

section \<open>Records built by the provider clients\<close>

lemma exn_bind_eq_Inr: "exn_bind m f = Inr y \<longleftrightarrow> (\<exists>x. m = Inr x \<and> f x = Inr y)"
  by (cases m) auto

lemma collect_append:
  "collect f items acc = Inr ps \<longleftrightarrow> (\<exists>rs. ps = acc @ rs \<and> list_all2 (\<lambda>p r. f p = Inr r) items rs)"
proof (induction items arbitrary: acc ps)
  case Nil
  show ?case by auto
next
  case (Cons p items)
  show ?case
    by (auto simp: exn_bind_eq_Inr Cons.IH list_all2_Cons1)
qed

lemma collect_records:
  "collect f items [] = Inr ps \<longleftrightarrow> list_all2 (\<lambda>p r. f p = Inr r) items ps"
  by (simp add: collect_append)

lemma amazon_product_keys: "amazon_product rt p = Inr r \<Longrightarrow> has_all_keys r"
  by (auto simp: amazon_product_def exn_bind_eq_Inr has_all_keys_def)

lemma google_product_keys: "google_product rt p = Inr r \<Longrightarrow> has_all_keys r"
  by (auto simp: google_product_def exn_bind_eq_Inr has_all_keys_def)

lemma list_all2_keys:
  "list_all2 (\<lambda>p r. f p = Inr r) items ps \<Longrightarrow> (\<And>p r. f p = Inr r \<Longrightarrow> has_all_keys r) \<Longrightarrow>
   list_all has_all_keys ps"
  by (induction items ps rule: list_all2_induct) auto

lemma slice5_length: "slice5 v = Inr items \<Longrightarrow> length items \<le> 5"
  by (cases v) auto

lemma sliced_records:
  assumes "slice5 v = Inr items" and "list_all2 (\<lambda>p r. f p = Inr r) items ps"
    and "\<And>p r. f p = Inr r \<Longrightarrow> has_all_keys r"
  shows "list_all has_all_keys ps \<and> length ps \<le> 5"
proof -
  have "length ps = length items"
    using assms(2) by (simp add: list_all2_lengthD)
  then have "length ps \<le> 5"
    using slice5_length [OF assms(1)] by simp
  then show ?thesis
    using list_all2_keys [OF assms(2) assms(3)] by simp
qed

lemma amazon_parse_keys:
  assumes "amazon_parse rt data = Inr ps"
  shows "list_all has_all_keys ps \<and> length ps \<le> 5"
proof -
  obtain v items where "slice5 v = Inr items" "list_all2 (\<lambda>p r. amazon_product rt p = Inr r) items ps"
    using assms unfolding amazon_parse_def exn_bind_eq_Inr collect_records by blast
  then show ?thesis
    by (rule sliced_records) (rule amazon_product_keys)
qed

lemma google_parse_keys:
  assumes "google_parse rt data = Inr ps"
  shows "list_all has_all_keys ps \<and> length ps \<le> 5"
proof -
  obtain v items where "slice5 v = Inr items" "list_all2 (\<lambda>p r. google_product rt p = Inr r) items ps"
    using assms unfolding google_parse_def exn_bind_eq_Inr collect_records by blast
  then show ?thesis
    by (rule sliced_records) (rule google_product_keys)
qed

lemma fallback_amazon_keys: "list_all has_all_keys fallback_amazon"
  by (simp add: fallback_amazon_def has_all_keys_def)

lemma fallback_google_keys: "list_all has_all_keys fallback_google"
  by (simp add: fallback_google_def has_all_keys_def)

subsection \<open>The result of a client, by what the network answers\<close>

lemma amazon_cases:
  "fst (search_amazon_products rt q w) =
     (case requests_get rt (amazon_request rt q) of
        Raises \<Rightarrow> fallback_amazon
      | Response status_code body \<Rightarrow>
          (if status_code = 200 then
             (case body of
                None \<Rightarrow> fallback_amazon
              | Some data \<Rightarrow>
                  (case amazon_parse rt data of
                     Inl e \<Rightarrow> fallback_amazon
                   | Inr ps \<Rightarrow> if ps \<noteq> [] then ps else fallback_amazon))
           else fallback_amazon))"
  by (simp add: search_amazon_products_def amazon_try_def send_def
      split: http_result.splits option.splits sum.splits)

lemma google_cases:
  "fst (search_google_shopping rt q w) =
     (case requests_get rt (google_request rt q) of
        Raises \<Rightarrow> fallback_google
      | Response status_code body \<Rightarrow>
          (if status_code = 200 then
             (case body of
                None \<Rightarrow> fallback_google
              | Some data \<Rightarrow>
                  (case google_parse rt data of
                     Inl e \<Rightarrow> fallback_google
                   | Inr ps \<Rightarrow> if ps \<noteq> [] then ps else fallback_google))
           else fallback_google))"
  by (simp add: search_google_shopping_def google_try_def send_def
      split: http_result.splits option.splits sum.splits)

lemma amazon_world:
  "snd (search_amazon_products rt q w) =
     w\<lparr>network_log := network_log w @ [amazon_request rt q],
       console := console w @ (case fst (amazon_try rt q w) of Inl e \<Rightarrow> [AmazonError e] | Inr ps \<Rightarrow> [])\<rparr>"
  by (simp add: search_amazon_products_def amazon_try_def send_def
      split: http_result.splits option.splits sum.splits)

lemma google_world:
  "snd (search_google_shopping rt q w) =
     w\<lparr>network_log := network_log w @ [google_request rt q],
       console := console w @ (case fst (google_try rt q w) of Inl e \<Rightarrow> [GoogleError e] | Inr ps \<Rightarrow> [])\<rparr>"
  by (simp add: search_google_shopping_def google_try_def send_def
      split: http_result.splits option.splits sum.splits)

lemma amazon_complete: "list_all has_all_keys (fst (search_amazon_products rt q w))"
  by (auto simp: amazon_cases fallback_amazon_keys dest: amazon_parse_keys
      split: http_result.splits option.splits sum.splits)

lemma google_complete: "list_all has_all_keys (fst (search_google_shopping rt q w))"
  by (auto simp: google_cases fallback_google_keys dest: google_parse_keys
      split: http_result.splits option.splits sum.splits)

lemma fallback_amazon_length: "length fallback_amazon = 2"
  by (simp add: fallback_amazon_def)

lemma fallback_google_length: "length fallback_google = 2"
  by (simp add: fallback_google_def)

lemma amazon_bounds: "fst (search_amazon_products rt q w) \<noteq> [] \<and> length (fst (search_amazon_products rt q w)) \<le> 5"
  using fallback_amazon_length
  by (auto simp: amazon_cases dest: amazon_parse_keys
      split: http_result.splits option.splits sum.splits)

lemma google_bounds: "fst (search_google_shopping rt q w) \<noteq> [] \<and> length (fst (search_google_shopping rt q w)) \<le> 5"
  using fallback_google_length
  by (auto simp: google_cases dest: google_parse_keys
      split: http_result.splits option.splits sum.splits)

lemma amazon_parse_entries:
  "map_of d ''data'' = Some (JObj d') \<Longrightarrow> map_of d' ''products'' = Some (JArr entries) \<Longrightarrow>
   (amazon_parse rt (JObj d) = Inr ps) = list_all2 (\<lambda>e r. amazon_product rt e = Inr r) (take 5 entries) ps"
  by (simp add: amazon_parse_def collect_records dict_get_def)

lemma google_parse_entries:
  "map_of d ''shopping_results'' = Some (JArr entries) \<Longrightarrow>
   (google_parse rt (JObj d) = Inr ps) = list_all2 (\<lambda>e r. google_product rt e = Inr r) (take 5 entries) ps"
  by (simp add: google_parse_def collect_records dict_get_def)

section \<open>Ranking\<close>





section \<open>A run of the graph\<close>

lemma or_empty_Some [simp]: "or_empty (Some xs) = xs"
  by (simp add: or_empty_def)

lemma or_empty_None [simp]: "or_empty None = []"
  by (simp add: or_empty_def)

lemma provider_lists_complete:
  "\<forall>p\<in>set (fst (search_amazon_products rt q w) @ fst (search_google_shopping rt q' w')). has_all_keys p"
  using amazon_complete [of rt q w] google_complete [of rt q' w'] by (auto simp: list_all_iff)

lemma searched_complete:
  "\<forall>p\<in>set (or_empty (amazon_products (fst (searched rt s w)))
            @ or_empty (google_products (fst (searched rt s w)))). has_all_keys p"
  using provider_lists_complete [of rt "user_input s" w "user_input s" "snd (search_amazon_products rt (user_input s) w)"]
  by (simp add: searched_def split_beta)

lemma run_from_step:
  "n \<noteq> END \<Longrightarrow> map_of nodes n = Some f \<Longrightarrow> f rt state w = (Inr ws, w') \<Longrightarrow> map_of edges n = Some n' \<Longrightarrow>
   run_from (Suc k) rt n (trace, state) w = run_from k rt n' (trace @ [n], update state ws) w'"
  by simp

lemma graph_run_stages:
  fixes rt :: runtime and s :: ProductSearchState and w :: world
  defines "A \<equiv> search_amazon_products rt (user_input s) w"
  defines "G \<equiv> search_google_shopping rt (user_input s) (snd A)"
  defines "s3 \<equiv> s\<lparr>amazon_products := Some (fst A), google_products := Some (fst G)\<rparr>"
  shows "\<exists>r t. rank_products rt s3 = Inr [W_ranked_products r, W_output_summary t]
       \<and> graph_run rt s w =
           (Inr ([''extract_product'', ''search_amazon'', ''search_google'', ''rank_products''],
                 s3\<lparr>ranked_products := Some r, output_summary := Some t\<rparr>), snd G)"
proof -
  have keys: "\<forall>p\<in>set (or_empty (amazon_products s3) @ or_empty (google_products s3)). has_all_keys p"
    using provider_lists_complete [of rt "user_input s" w "user_input s" "snd A"]
    by (simp add: s3_def A_def G_def)
  obtain r t where rank: "rank_products rt s3 = Inr [W_ranked_products r, W_output_summary t]"
    using rank_products_complete [OF keys, of rt] by blast
  have 1: "run_from 25 rt ''extract_product'' ([], s) w = run_from 24 rt ''search_amazon'' ([''extract_product''], s) w"
    using run_from_step [of "''extract_product''" _ rt s w "extract_product s" w "''search_amazon''" 24 "[]"]
    by (simp add: nodes_def edges_def END_def extract_product_def update_def)
  have 2: "run_from 24 rt ''search_amazon'' ([''extract_product''], s) w
      = run_from 23 rt ''search_google'' ([''extract_product'', ''search_amazon''], s\<lparr>amazon_products := Some (fst A)\<rparr>) (snd A)"
    using run_from_step [of "''search_amazon''" _ rt s w "[W_amazon_products (fst A)]" "snd A" "''search_google''" 23 "[''extract_product'']"]
    by (simp add: nodes_def edges_def END_def search_amazon_def update_def A_def split_beta)
  have 3: "run_from 23 rt ''search_google'' ([''extract_product'', ''search_amazon''], s\<lparr>amazon_products := Some (fst A)\<rparr>) (snd A)
      = run_from 22 rt ''rank_products'' ([''extract_product'', ''search_amazon'', ''search_google''], s3) (snd G)"
    using run_from_step [of "''search_google''" _ rt "s\<lparr>amazon_products := Some (fst A)\<rparr>" "snd A" "[W_google_products (fst G)]" "snd G" "''rank_products''" 22 "[''extract_product'', ''search_amazon'']"]
    by (simp add: nodes_def edges_def END_def search_google_def update_def G_def s3_def split_beta)
  have 4: "run_from 22 rt ''rank_products'' ([''extract_product'', ''search_amazon'', ''search_google''], s3) (snd G)
      = run_from 21 rt END ([''extract_product'', ''search_amazon'', ''search_google'', ''rank_products''],
          s3\<lparr>ranked_products := Some r, output_summary := Some t\<rparr>) (snd G)"
    using run_from_step [of "''rank_products''" _ rt s3 "snd G" "[W_ranked_products r, W_output_summary t]" "snd G" END 21 "[''extract_product'', ''search_amazon'', ''search_google'']"]
    by (simp add: nodes_def edges_def END_def rank update_def)
  have 5: "run_from 21 rt END (tr, st) (snd G) = (Inr (tr, st), snd G)" for tr st
    using run_from.simps(2) [of 20 rt END tr st "snd G"] by simp
  have "graph_run rt s w =
      (Inr ([''extract_product'', ''search_amazon'', ''search_google'', ''rank_products''],
            s3\<lparr>ranked_products := Some r, output_summary := Some t\<rparr>), snd G)"
    by (simp only: graph_run_def recursion_limit_def entry_point_def 1 2 3 4 5)
  then show ?thesis
    using rank by blast
qed

text \<open>
  The run in terms of the state after the two searches: the rank stage returns on it, and
  what it writes completes the final state.
\<close>

lemma graph_run_searched:
  "graph_run rt s w =
     (Inr (stage_order,
           (fst (searched rt s w))
             \<lparr>ranked_products := ranked_of (rank_products rt (fst (searched rt s w))),
              output_summary := summary_of (rank_products rt (fst (searched rt s w)))\<rparr>),
      snd (searched rt s w))"
  using graph_run_stages [of rt s w]
  by (auto simp: searched_def split_beta stage_order_def ranked_of_def summary_of_def)

lemma rank_searched:
  "rank_products rt (fst (searched rt s w)) =
     Inr [W_ranked_products
            (take 3 (sorted_reverse rating_key
               (or_empty (amazon_products (fst (searched rt s w)))
                @ or_empty (google_products (fst (searched rt s w)))))),
          W_output_summary (join [CHR 0x0A]
            ([query_line (user_input s), [], amazon_header]
             @ listing rt '' [Amazon]'' (or_empty (amazon_products (fst (searched rt s w))))
             @ [google_header]
             @ listing rt '' [Google]'' (or_empty (google_products (fst (searched rt s w))))
             @ [top_header]
             @ listing rt []
                 (take 3 (sorted_reverse rating_key
                    (or_empty (amazon_products (fst (searched rt s w)))
                     @ or_empty (google_products (fst (searched rt s w))))))))]"
proof -
  have "user_input (fst (searched rt s w)) = user_input s"
    by (simp add: searched_def split_beta)
  then show ?thesis
    using rank_products_complete [where rt = rt and s = "fst (searched rt s w)", OF searched_complete]
    by simp
qed

lemma searched_world:
  "network_log (snd (searched rt s w))
     = network_log w @ [amazon_request rt (user_input s), google_request rt (user_input s)]
   \<and> page (snd (searched rt s w)) = page w"
  by (simp add: searched_def split_beta amazon_world google_world)

lemma searched_state:
  "fst (searched rt s w) =
     s\<lparr>amazon_products := Some (fst (search_amazon_products rt (user_input s) w)),
       google_products := Some (fst (search_google_shopping rt (user_input s) w'))\<rparr>"
  by (simp add: searched_def split_beta amazon_cases google_cases)

lemma rank_products_inputs:
  "user_input s = user_input s' \<Longrightarrow>
   or_empty (amazon_products s) = or_empty (amazon_products s') \<Longrightarrow>
   or_empty (google_products s) = or_empty (google_products s') \<Longrightarrow>
   rank_products rt s = rank_products rt s'"
  by (simp add: rank_products_def)

lemma graph_invoke_searched:
  "graph_invoke rt s w =
     (Inr ((fst (searched rt s w))
             \<lparr>ranked_products := ranked_of (rank_products rt (fst (searched rt s w))),
              output_summary := summary_of (rank_products rt (fst (searched rt s w)))\<rparr>),
      snd (searched rt s w))"
  by (simp add: graph_invoke_def graph_run_searched)

lemma graph_invoke_query:
  assumes "user_input s = user_input s'"
  shows "fst (graph_invoke rt s w) = fst (graph_invoke rt s' w')"
proof -
  let ?a = "fst (search_amazon_products rt (user_input s) w)"
  let ?g = "fst (search_google_shopping rt (user_input s) w)"
  have s: "fst (searched rt s w) = s\<lparr>amazon_products := Some ?a, google_products := Some ?g\<rparr>"
    by (rule searched_state)
  have "fst (searched rt s' w') =
      s'\<lparr>amazon_products := Some (fst (search_amazon_products rt (user_input s') w')),
         google_products := Some (fst (search_google_shopping rt (user_input s') w))\<rparr>"
    by (rule searched_state)
  then have s': "fst (searched rt s' w') = s'\<lparr>amazon_products := Some ?a, google_products := Some ?g\<rparr>"
    using assms by (simp add: amazon_cases)
  have "rank_products rt (fst (searched rt s w)) = rank_products rt (fst (searched rt s' w'))"
    unfolding s s' by (rule rank_products_inputs) (simp_all add: assms)
  then show ?thesis
    using assms by (simp add: graph_invoke_searched s s')
qed

lemma rank_products_keys: "rank_products rt s = Inr ws \<Longrightarrow> map key_of ws = [''ranked_products'', ''output_summary'']"
  by (auto simp: rank_products_def Let_def exn_bind_eq_Inr)

lemma rank_products_update:
  "rank_products rt s = Inr ws \<Longrightarrow>
   user_input (update s ws) = user_input s \<and> amazon_products (update s ws) = amazon_products s
   \<and> google_products (update s ws) = google_products s"
  by (auto simp: rank_products_def Let_def exn_bind_eq_Inr update_def)

section \<open>The examples, evaluated\<close>

lemma example_amazon_parse:
  "amazon_parse (example_runtime net) amazon_body = Inr [item_a]"
  by (simp add: amazon_parse_def amazon_body_def amazon_product_def py_or_def example_runtime_def
      example_float_of_str_def item_a_def dict_get_def)

lemma example_google_parse:
  "google_parse (example_runtime net) google_body = Inr [item_b]"
  by (simp add: google_parse_def google_body_def google_product_def example_runtime_def item_b_def
      dict_get_def)

lemma example_amazon_search:
  "fst (search_amazon_products (example_runtime (answering amazon_body google_body)) q w) = [item_a]"
proof -
  have "requests_get (example_runtime (answering amazon_body google_body))
      (amazon_request (example_runtime (answering amazon_body google_body)) q) = Response 200 (Some amazon_body)"
    by (simp add: example_runtime_def answering_def amazon_request_def)
  then show ?thesis
    by (simp add: amazon_cases example_amazon_parse)
qed

lemma example_google_search:
  "fst (search_google_shopping (example_runtime (answering amazon_body google_body)) q w) = [item_b]"
proof -
  have "requests_get (example_runtime (answering amazon_body google_body))
      (google_request (example_runtime (answering amazon_body google_body)) q) = Response 200 (Some google_body)"
    by (simp add: example_runtime_def answering_def google_request_def)
  then show ?thesis
    by (simp add: google_cases example_google_parse)
qed

lemma example_sort: "take 3 (sorted_reverse rating_key [item_a, item_b]) = [item_a, item_b]"
  by (simp add: sorted_reverse_Cons sorted_reverse_Nil rating_key_def item_a_def item_b_def)

lemma example_keys: "has_all_keys item_a" "has_all_keys item_b" "has_all_keys item_c" "has_all_keys item_d"
  by (simp_all add: has_all_keys_def item_a_def item_b_def item_c_def item_d_def)

section \<open>The stages and their order\<close>

text \<open>
  Claim C9. The extract stage is the identity on the query: it returns the single pair
  \<^verbatim>\<open>user_input\<close> with the value it read, so the state is the same after it, and the run
  goes on to \<^verbatim>\<open>search_amazon\<close> with that state.
\<close>

theorem extract_product_identity:
  "extract_product s = [W_user_input (user_input s)]
   \<and> map key_of (extract_product s) = [''user_input'']
   \<and> update s (extract_product s) = s
   \<and> (\<forall>rt k trace w. run_from (Suc k) rt ''extract_product'' (trace, s) w
         = run_from k rt ''search_amazon'' (trace @ [''extract_product''], s) w)"
proof -
  have "run_from (Suc k) rt ''extract_product'' (trace, s) w
      = run_from k rt ''search_amazon'' (trace @ [''extract_product''], s) w" for rt k trace w
    using run_from_step [of "''extract_product''" _ rt s w "extract_product s" w "''search_amazon''" k trace]
    by (simp add: nodes_def edges_def END_def extract_product_def update_def)
  then show ?thesis
    by (simp add: extract_product_def update_def)
qed

text \<open>The extract stage on the state of the scenario.\<close>

theorem extract_product_identity_witness:
  "extract_product scenario_state = [W_user_input ''iPhone 14'']
   \<and> update scenario_state (extract_product scenario_state) = scenario_state"
proof -
  note stage = extract_product_identity [of scenario_state]
  have q: "user_input scenario_state = ''iPhone 14''"
    by (simp add: scenario_state_def)
  have "extract_product scenario_state = [W_user_input ''iPhone 14'']"
    using stage [THEN conjunct1] by (simp only: q)
  moreover have "update scenario_state (extract_product scenario_state) = scenario_state"
    by (rule stage [THEN conjunct2, THEN conjunct2, THEN conjunct1])
  ultimately show ?thesis
    by (rule conjI)
qed

text \<open>
  Claim C6. One run of the graph executes the four stages once each, in the order
  extract, search-A, search-B, rank, and ends. The final state is the input state with
  \<^verbatim>\<open>amazon_products\<close> as search-A returned it, \<^verbatim>\<open>google_products\<close> as search-B returned it,
  and \<^verbatim>\<open>ranked_products\<close> and \<^verbatim>\<open>output_summary\<close> as the rank stage wrote them on that state:
  no later stage has changed what an earlier one wrote. Each stage returns its own keys
  only (extract the query it read, search-A \<^verbatim>\<open>amazon_products\<close>, search-B
  \<^verbatim>\<open>google_products\<close>, rank \<^verbatim>\<open>ranked_products\<close> and \<^verbatim>\<open>output_summary\<close>), and storing the
  writes of a later stage leaves the fields of the earlier ones as they were.
\<close>

theorem pipeline_order_and_writes:
  fixes rt :: runtime and s :: ProductSearchState and w :: world
  defines "s3 \<equiv> fst (searched rt s w)"
  shows "graph_run rt s w =
           (Inr (stage_order,
                 s3\<lparr>ranked_products := ranked_of (rank_products rt s3),
                    output_summary := summary_of (rank_products rt s3)\<rparr>),
            snd (searched rt s w))
       \<and> stage_order = [''extract_product'', ''search_amazon'', ''search_google'', ''rank_products'']
       \<and> s3 = s\<lparr>amazon_products := Some (fst (search_amazon_products rt (user_input s) w)),
                google_products := Some (fst (search_google_shopping rt (user_input s) w))\<rparr>
       \<and> (\<exists>r t. rank_products rt s3 = Inr [W_ranked_products r, W_output_summary t])
       \<and> map key_of (extract_product s) = [''user_input'']
       \<and> map key_of (fst (search_amazon rt s w)) = [''amazon_products'']
       \<and> map key_of (fst (search_google rt s w)) = [''google_products'']
       \<and> (\<forall>ws. rank_products rt s = Inr ws \<longrightarrow> map key_of ws = [''ranked_products'', ''output_summary''])
       \<and> amazon_products (update s (fst (search_google rt s w))) = amazon_products s
       \<and> (\<forall>ws. rank_products rt s = Inr ws \<longrightarrow>
             user_input (update s ws) = user_input s
             \<and> amazon_products (update s ws) = amazon_products s
             \<and> google_products (update s ws) = google_products s)"
proof -
  have run: "graph_run rt s w =
           (Inr (stage_order,
                 s3\<lparr>ranked_products := ranked_of (rank_products rt s3),
                    output_summary := summary_of (rank_products rt s3)\<rparr>),
            snd (searched rt s w))"
    unfolding s3_def by (rule graph_run_searched)
  have st: "s3 = s\<lparr>amazon_products := Some (fst (search_amazon_products rt (user_input s) w)),
                google_products := Some (fst (search_google_shopping rt (user_input s) w))\<rparr>"
    unfolding s3_def by (rule searched_state)
  have rank: "\<exists>r t. rank_products rt s3 = Inr [W_ranked_products r, W_output_summary t]"
    unfolding s3_def using rank_searched [of rt s w] by blast
  have keys: "map key_of (extract_product s) = [''user_input'']"
      "map key_of (fst (search_amazon rt s w)) = [''amazon_products'']"
      "map key_of (fst (search_google rt s w)) = [''google_products'']"
      "amazon_products (update s (fst (search_google rt s w))) = amazon_products s"
    by (simp_all add: extract_product_def search_amazon_def search_google_def split_beta update_def)
  show ?thesis
    using run st rank keys rank_products_keys [of rt s] rank_products_update [of rt s]
    by (simp add: stage_order_def)
qed

text \<open>A run on a network where each provider answers with one entry.\<close>

theorem pipeline_order_and_writes_witness:
  "(case fst (graph_run (example_runtime (answering amazon_body google_body)) (initial_state ''iPhone 14'') empty_world) of
      Inl e \<Rightarrow> False
    | Inr (trace, final) \<Rightarrow>
        trace = [''extract_product'', ''search_amazon'', ''search_google'', ''rank_products'']
        \<and> user_input final = ''iPhone 14''
        \<and> amazon_products final = Some [item_a]
        \<and> google_products final = Some [item_b]
        \<and> ranked_products final = Some [item_a, item_b])"
proof -
  let ?rt = "example_runtime (answering amazon_body google_body)"
  let ?s3 = "(initial_state ''iPhone 14'')\<lparr>amazon_products := Some [item_a], google_products := Some [item_b]\<rparr>"
  have "ranked_of (rank_products ?rt ?s3) = Some [item_a, item_b]"
    using ranked_of_complete [of ?s3 ?rt] by (simp add: example_keys example_sort)
  then show ?thesis
    using pipeline_order_and_writes [of ?rt "initial_state ''iPhone 14''" empty_world]
    by (simp add: example_amazon_search example_google_search initial_state_def)
qed

section \<open>Keys of the records\<close>

text \<open>
  Claim C10. Every record in a list returned by either provider client, parsed from a
  response or taken from a fallback list, has the four keys \<^verbatim>\<open>title\<close>, \<^verbatim>\<open>price\<close>, \<^verbatim>\<open>rating\<close>
  and \<^verbatim>\<open>link\<close>; its rating is a float (the type of the field). Hence the subscripts of the
  summary lines raise no \<^verbatim>\<open>KeyError\<close> on the records of the pipeline: the rank stage
  returns on the state the two searches leave, the run of the graph returns a state, and
  in general an item line is produced for every record with the four keys.
\<close>

theorem provider_records_have_all_keys:
  "list_all has_all_keys (fst (search_amazon_products rt q w))
   \<and> list_all has_all_keys (fst (search_google_shopping rt q w))
   \<and> list_all has_all_keys fallback_amazon
   \<and> list_all has_all_keys fallback_google
   \<and> (\<exists>r t. rank_products rt (fst (searched rt s w)) = Inr [W_ranked_products r, W_output_summary t])
   \<and> (\<exists>final w'. graph_invoke rt s w = (Inr final, w'))
   \<and> (\<forall>tag i p. has_all_keys p \<longrightarrow> (\<exists>l. item_line rt tag i p = Inr l))
   \<and> (\<forall>s'. list_all has_all_keys (or_empty (amazon_products s') @ or_empty (google_products s'))
          \<longrightarrow> (\<exists>r t. rank_products rt s' = Inr [W_ranked_products r, W_output_summary t]))"
proof -
  have rank: "\<exists>r t. rank_products rt s' = Inr [W_ranked_products r, W_output_summary t]"
    if "list_all has_all_keys (or_empty (amazon_products s') @ or_empty (google_products s'))" for s'
  proof -
    have "\<forall>p\<in>set (or_empty (amazon_products s') @ or_empty (google_products s')). has_all_keys p"
      using that by (simp add: list_all_iff)
    then show ?thesis
      using rank_products_complete [of s' rt] by blast
  qed
  have "\<exists>r t. rank_products rt (fst (searched rt s w)) = Inr [W_ranked_products r, W_output_summary t]"
    using rank_searched [of rt s w] by blast
  moreover have "\<exists>final w'. graph_invoke rt s w = (Inr final, w')"
    using graph_invoke_searched [of rt s w] by blast
  moreover have "\<exists>l. item_line rt tag i p = Inr l" if "has_all_keys p" for tag i p
    using item_line_complete [OF that] by blast
  ultimately show ?thesis
    using amazon_complete [of rt q w] google_complete [of rt q w] fallback_amazon_keys fallback_google_keys rank
    by blast
qed

text \<open>The fallback list of a failed request, a parsed record, and the rank stage on both.\<close>

theorem provider_records_have_all_keys_witness:
  "fst (search_amazon_products (example_runtime (\<lambda>r. Raises)) ''iPhone 14'' empty_world) = fallback_amazon
   \<and> list_all has_all_keys fallback_amazon
   \<and> fst (search_google_shopping (example_runtime (answering amazon_body google_body)) ''iPhone 14'' empty_world)
       = [item_b]
   \<and> has_all_keys item_b
   \<and> list_all has_all_keys (or_empty (amazon_products scenario_state) @ or_empty (google_products scenario_state))
   \<and> (case rank_products (example_runtime (\<lambda>r. Raises)) scenario_state of Inl e \<Rightarrow> False | Inr ws \<Rightarrow> True)"
proof -
  have "fst (search_amazon_products (example_runtime (\<lambda>r. Raises)) ''iPhone 14'' empty_world) = fallback_amazon"
    by (simp add: amazon_cases example_runtime_def)
  moreover have "list_all has_all_keys (or_empty (amazon_products scenario_state) @ or_empty (google_products scenario_state))"
    by (simp add: scenario_state_def example_keys)
  ultimately show ?thesis
    using provider_records_have_all_keys [of "example_runtime (\<lambda>r. Raises)" "''iPhone 14''" empty_world scenario_state]
    by (auto simp: example_google_search example_keys)
qed

section \<open>Determinism\<close>

text \<open>
  Claim C7. What the rank stage returns, the ranked list and the summary (or the
  exception), is a function of the query and the two product lists alone: two states that
  agree on them give the same result, whatever their other fields hold, and an absent list
  counts as an empty one. For the whole run: on the same runtime (the same provider
  responses), two invocations with the same query end in the same state, whatever the
  other fields of the input and the world they start in.
\<close>

theorem rank_products_deterministic:
  "(user_input s = user_input s'
      \<and> or_empty (amazon_products s) = or_empty (amazon_products s')
      \<and> or_empty (google_products s) = or_empty (google_products s')
    \<longrightarrow> rank_products rt s = rank_products rt s')
   \<and> (user_input s = user_input s' \<longrightarrow> fst (graph_invoke rt s w) = fst (graph_invoke rt s' w'))"
  using rank_products_inputs [of s s' rt] graph_invoke_query [of s s' rt w w'] by blast

text \<open>States that differ in stale results, worlds that differ in what was printed.\<close>

theorem rank_products_deterministic_witness:
  "rank_products (example_runtime (\<lambda>r. Raises)) scenario_state
     = rank_products (example_runtime (\<lambda>r. Raises))
         (scenario_state\<lparr>ranked_products := Some [item_c], output_summary := Some ''stale''\<rparr>)
   \<and> fst (graph_invoke (example_runtime (answering amazon_body google_body)) (initial_state ''iPhone 14'') empty_world)
     = fst (graph_invoke (example_runtime (answering amazon_body google_body))
         ((initial_state ''iPhone 14'')\<lparr>amazon_products := Some [], output_summary := Some ''stale''\<rparr>)
         (empty_world\<lparr>console := [AmazonError ValueError]\<rparr>))"
  using rank_products_deterministic [of scenario_state
      "scenario_state\<lparr>ranked_products := Some [item_c], output_summary := Some ''stale''\<rparr>"
      "example_runtime (\<lambda>r. Raises)"]
    rank_products_deterministic [of "initial_state ''iPhone 14''"
      "(initial_state ''iPhone 14'')\<lparr>amazon_products := Some [], output_summary := Some ''stale''\<rparr>"
      "example_runtime (answering amazon_body google_body)" empty_world
      "empty_world\<lparr>console := [AmazonError ValueError]\<rparr>"]
  by (simp add: scenario_state_def initial_state_def)

section \<open>The summary\<close>






section \<open>The user interface\<close>

lemma summary_searched: "\<exists>t. summary_of (rank_products rt (fst (searched rt s w))) = Some t"
  using rank_searched [of rt s w] by (simp add: summary_of_def)

text \<open>
  Claim C8. When the search button is pressed with an empty query, the graph is not
  invoked: the page shows the title and the warning, and the world is otherwise unchanged
  (no request is sent). When it is pressed with a non-empty query, the graph is invoked,
  it returns a state holding a summary, the page shows the title, the subheader and that
  summary, and exactly two requests are sent, one to each provider.
\<close>

theorem empty_query_no_search:
  fixes rt :: runtime and w :: world and q :: string
  defines "w1 \<equiv> show_on_page (st_title ''Product Comparison Tool'') w"
  shows "run_product_search rt [] True w =
           (Inr (), w\<lparr>page := page w @ [st_title ''Product Comparison Tool'',
                                          st_warning ''Please enter a product query.'']\<rparr>)
       \<and> network_log (snd (run_product_search rt [] True w)) = network_log w
       \<and> (q \<noteq> [] \<longrightarrow>
            (\<exists>final w2 summary.
               graph_invoke rt (initial_state q) w1 = (Inr final, w2)
               \<and> output_summary final = Some summary
               \<and> run_product_search rt q True w =
                   (Inr (), w2\<lparr>page := page w @ [st_title ''Product Comparison Tool'',
                                   st_subheader ''Comparison Summary'', st_markdown summary]\<rparr>)
               \<and> network_log w2 = network_log w @ [amazon_request rt q, google_request rt q]))"
proof -
  have empty: "run_product_search rt [] True w =
           (Inr (), w\<lparr>page := page w @ [st_title ''Product Comparison Tool'',
                                          st_warning ''Please enter a product query.'']\<rparr>)"
    by (simp add: run_product_search_def show_on_page_def)
  have search: "\<exists>final w2 summary.
               graph_invoke rt (initial_state q) w1 = (Inr final, w2)
               \<and> output_summary final = Some summary
               \<and> run_product_search rt q True w =
                   (Inr (), w2\<lparr>page := page w @ [st_title ''Product Comparison Tool'',
                                   st_subheader ''Comparison Summary'', st_markdown summary]\<rparr>)
               \<and> network_log w2 = network_log w @ [amazon_request rt q, google_request rt q]"
    if "q \<noteq> []"
  proof -
    let ?s3 = "fst (searched rt (initial_state q) w1)"
    let ?w2 = "snd (searched rt (initial_state q) w1)"
    let ?final = "?s3\<lparr>ranked_products := ranked_of (rank_products rt ?s3),
                       output_summary := summary_of (rank_products rt ?s3)\<rparr>"
    obtain t where t: "summary_of (rank_products rt ?s3) = Some t"
      using summary_searched by blast
    have inv: "graph_invoke rt (initial_state q) w1 = (Inr ?final, ?w2)"
      by (rule graph_invoke_searched)
    have out: "output_summary ?final = Some t"
      using t by simp
    have log: "network_log ?w2 = network_log w @ [amazon_request rt q, google_request rt q]"
      and pg: "page ?w2 = page w @ [st_title ''Product Comparison Tool'']"
      using searched_world [of rt "initial_state q" w1]
      by (simp_all add: w1_def show_on_page_def initial_state_def)
    have "graph_invoke rt \<lparr>user_input = q, amazon_products = None, google_products = None,
        ranked_products = None, output_summary = None\<rparr> w1 = (Inr ?final, ?w2)"
      using inv by (simp add: initial_state_def)
    then have "run_product_search rt q True w =
        (Inr (), ?w2\<lparr>page := page w @ [st_title ''Product Comparison Tool'',
                          st_subheader ''Comparison Summary'', st_markdown t]\<rparr>)"
      using that t pg by (simp add: run_product_search_def Let_def w1_def show_on_page_def subscript_def)
    then show ?thesis
      using inv out log by blast
  qed
  show ?thesis
    using empty search by simp
qed

text \<open>Both cases, from a world in which nothing has happened yet.\<close>

theorem empty_query_no_search_witness:
  "run_product_search (example_runtime (answering amazon_body google_body)) [] True empty_world
     = (Inr (), \<lparr>network_log = [], console = [],
                 page = [st_title ''Product Comparison Tool'', st_warning ''Please enter a product query.'']\<rparr>)
   \<and> ''iPhone 14'' \<noteq> []
   \<and> fst (run_product_search (example_runtime (answering amazon_body google_body)) ''iPhone 14'' True empty_world)
       = Inr ()
   \<and> network_log (snd (run_product_search (example_runtime (answering amazon_body google_body))
         ''iPhone 14'' True empty_world))
       = [amazon_request (example_runtime (answering amazon_body google_body)) ''iPhone 14'',
          google_request (example_runtime (answering amazon_body google_body)) ''iPhone 14'']"
  using empty_query_no_search [of "example_runtime (answering amazon_body google_body)" empty_world "''iPhone 14''"]
  by (auto simp: empty_world_def)

section \<open>The provider clients\<close>

text \<open>
  Claim C2. For every query, runtime and world, each provider client returns a list that
  is not empty (and has at most five records); it is a total function, every exception of
  its body ends in the \<^verbatim>\<open>except\<close> clause. On status 200 with a body from which the loop
  builds at least one record, the result is that list of records, one for each of the first
  at most five entries. In every other case the result is the provider's fallback list:
  when the loop builds no record, when it raises, when the body is not JSON, when the
  status is not 200, and when the request raises (connection error, timeout). The fallback
  list of provider A is the two records given, and that of provider B has two records.
\<close>

theorem search_never_empty:
  fixes rt :: runtime and q :: string and w :: world
  defines "amazon \<equiv> fst (search_amazon_products rt q w)"
  defines "google \<equiv> fst (search_google_shopping rt q w)"
  defines "amazon_answer \<equiv> requests_get rt (amazon_request rt q)"
  defines "google_answer \<equiv> requests_get rt (google_request rt q)"
  shows "amazon \<noteq> [] \<and> length amazon \<le> 5 \<and> google \<noteq> [] \<and> length google \<le> 5
       \<and> (\<forall>data ps. amazon_answer = Response 200 (Some data) \<and> amazon_parse rt data = Inr ps \<and> ps \<noteq> []
             \<longrightarrow> amazon = ps)
       \<and> (\<forall>data. amazon_answer = Response 200 (Some data) \<and> amazon_parse rt data = Inr []
             \<longrightarrow> amazon = fallback_amazon)
       \<and> (\<forall>data e. amazon_answer = Response 200 (Some data) \<and> amazon_parse rt data = Inl e
             \<longrightarrow> amazon = fallback_amazon)
       \<and> (amazon_answer = Response 200 None \<longrightarrow> amazon = fallback_amazon)
       \<and> (\<forall>status body. amazon_answer = Response status body \<and> status \<noteq> 200 \<longrightarrow> amazon = fallback_amazon)
       \<and> (amazon_answer = Raises \<longrightarrow> amazon = fallback_amazon)
       \<and> (\<forall>data ps. google_answer = Response 200 (Some data) \<and> google_parse rt data = Inr ps \<and> ps \<noteq> []
             \<longrightarrow> google = ps)
       \<and> (\<forall>data. google_answer = Response 200 (Some data) \<and> google_parse rt data = Inr []
             \<longrightarrow> google = fallback_google)
       \<and> (\<forall>data e. google_answer = Response 200 (Some data) \<and> google_parse rt data = Inl e
             \<longrightarrow> google = fallback_google)
       \<and> (google_answer = Response 200 None \<longrightarrow> google = fallback_google)
       \<and> (\<forall>status body. google_answer = Response status body \<and> status \<noteq> 200 \<longrightarrow> google = fallback_google)
       \<and> (google_answer = Raises \<longrightarrow> google = fallback_google)
       \<and> (\<forall>d d' entries ps. map_of d ''data'' = Some (JObj d') \<and> map_of d' ''products'' = Some (JArr entries)
             \<longrightarrow> (amazon_parse rt (JObj d) = Inr ps)
                 = list_all2 (\<lambda>e r. amazon_product rt e = Inr r) (take 5 entries) ps)
       \<and> (\<forall>d entries ps. map_of d ''shopping_results'' = Some (JArr entries)
             \<longrightarrow> (google_parse rt (JObj d) = Inr ps)
                 = list_all2 (\<lambda>e r. google_product rt e = Inr r) (take 5 entries) ps)
       \<and> fallback_amazon =
           [\<lparr>title = Some (JStr ''Fallback Product A''), price = Some (JStr (rupee @ ''50,000'')),
             rating = Some 4.3, link = Some (JStr ''https://amazon.in/fallback-a'')\<rparr>,
            \<lparr>title = Some (JStr ''Fallback Product B''), price = Some (JStr (rupee @ ''45,000'')),
             rating = Some 4.1, link = Some (JStr ''https://amazon.in/fallback-b'')\<rparr>]
       \<and> length fallback_google = 2"
proof -
  have a: "amazon \<noteq> [] \<and> length amazon \<le> 5" and g: "google \<noteq> [] \<and> length google \<le> 5"
    unfolding amazon_def google_def by (rule amazon_bounds, rule google_bounds)
  have ac: "amazon =
     (case amazon_answer of
        Raises \<Rightarrow> fallback_amazon
      | Response status_code body \<Rightarrow>
          (if status_code = 200 then
             (case body of
                None \<Rightarrow> fallback_amazon
              | Some data \<Rightarrow>
                  (case amazon_parse rt data of
                     Inl e \<Rightarrow> fallback_amazon
                   | Inr ps \<Rightarrow> if ps \<noteq> [] then ps else fallback_amazon))
           else fallback_amazon))"
    unfolding amazon_def amazon_answer_def by (rule amazon_cases)
  have gc: "google =
     (case google_answer of
        Raises \<Rightarrow> fallback_google
      | Response status_code body \<Rightarrow>
          (if status_code = 200 then
             (case body of
                None \<Rightarrow> fallback_google
              | Some data \<Rightarrow>
                  (case google_parse rt data of
                     Inl e \<Rightarrow> fallback_google
                   | Inr ps \<Rightarrow> if ps \<noteq> [] then ps else fallback_google))
           else fallback_google))"
    unfolding google_def google_answer_def by (rule google_cases)
  have a1: "amazon = ps" if "amazon_answer = Response 200 (Some data)" "amazon_parse rt data = Inr ps" "ps \<noteq> []" for data ps
    using that by (simp add: ac)
  have a2: "amazon = fallback_amazon" if "amazon_answer = Response 200 (Some data)" "amazon_parse rt data = Inr []" for data
    using that by (simp add: ac)
  have a3: "amazon = fallback_amazon" if "amazon_answer = Response 200 (Some data)" "amazon_parse rt data = Inl e" for data e
    using that by (simp add: ac)
  have a4: "amazon = fallback_amazon" if "amazon_answer = Response 200 None"
    using that by (simp add: ac)
  have a5: "amazon = fallback_amazon" if "amazon_answer = Response status body" "status \<noteq> 200" for status body
    using that by (simp add: ac)
  have a6: "amazon = fallback_amazon" if "amazon_answer = Raises"
    using that by (simp add: ac)
  have g1: "google = ps" if "google_answer = Response 200 (Some data)" "google_parse rt data = Inr ps" "ps \<noteq> []" for data ps
    using that by (simp add: gc)
  have g2: "google = fallback_google" if "google_answer = Response 200 (Some data)" "google_parse rt data = Inr []" for data
    using that by (simp add: gc)
  have g3: "google = fallback_google" if "google_answer = Response 200 (Some data)" "google_parse rt data = Inl e" for data e
    using that by (simp add: gc)
  have g4: "google = fallback_google" if "google_answer = Response 200 None"
    using that by (simp add: gc)
  have g5: "google = fallback_google" if "google_answer = Response status body" "status \<noteq> 200" for status body
    using that by (simp add: gc)
  have g6: "google = fallback_google" if "google_answer = Raises"
    using that by (simp add: gc)
  have A1: "\<forall>data ps. amazon_answer = Response 200 (Some data) \<and> amazon_parse rt data = Inr ps \<and> ps \<noteq> []
             \<longrightarrow> amazon = ps"
    using a1 by blast
  have A2: "\<forall>data. amazon_answer = Response 200 (Some data) \<and> amazon_parse rt data = Inr []
             \<longrightarrow> amazon = fallback_amazon"
    using a2 by blast
  have A3: "\<forall>data e. amazon_answer = Response 200 (Some data) \<and> amazon_parse rt data = Inl e
             \<longrightarrow> amazon = fallback_amazon"
    using a3 by blast
  have A4: "amazon_answer = Response 200 None \<longrightarrow> amazon = fallback_amazon"
    using a4 by blast
  have A5: "\<forall>status body. amazon_answer = Response status body \<and> status \<noteq> 200 \<longrightarrow> amazon = fallback_amazon"
    using a5 by blast
  have A6: "amazon_answer = Raises \<longrightarrow> amazon = fallback_amazon"
    using a6 by blast
  have G1: "\<forall>data ps. google_answer = Response 200 (Some data) \<and> google_parse rt data = Inr ps \<and> ps \<noteq> []
             \<longrightarrow> google = ps"
    using g1 by blast
  have G2: "\<forall>data. google_answer = Response 200 (Some data) \<and> google_parse rt data = Inr []
             \<longrightarrow> google = fallback_google"
    using g2 by blast
  have G3: "\<forall>data e. google_answer = Response 200 (Some data) \<and> google_parse rt data = Inl e
             \<longrightarrow> google = fallback_google"
    using g3 by blast
  have G4: "google_answer = Response 200 None \<longrightarrow> google = fallback_google"
    using g4 by blast
  have G5: "\<forall>status body. google_answer = Response status body \<and> status \<noteq> 200 \<longrightarrow> google = fallback_google"
    using g5 by blast
  have G6: "google_answer = Raises \<longrightarrow> google = fallback_google"
    using g6 by blast
  have P1: "\<forall>d d' entries ps. map_of d ''data'' = Some (JObj d') \<and> map_of d' ''products'' = Some (JArr entries)
             \<longrightarrow> (amazon_parse rt (JObj d) = Inr ps)
                 = list_all2 (\<lambda>e r. amazon_product rt e = Inr r) (take 5 entries) ps"
    using amazon_parse_entries by blast
  have P2: "\<forall>d entries ps. map_of d ''shopping_results'' = Some (JArr entries)
             \<longrightarrow> (google_parse rt (JObj d) = Inr ps)
                 = list_all2 (\<lambda>e r. google_product rt e = Inr r) (take 5 entries) ps"
    using google_parse_entries by blast
  have fb: "fallback_amazon =
           [\<lparr>title = Some (JStr ''Fallback Product A''), price = Some (JStr (rupee @ ''50,000'')),
             rating = Some 4.3, link = Some (JStr ''https://amazon.in/fallback-a'')\<rparr>,
            \<lparr>title = Some (JStr ''Fallback Product B''), price = Some (JStr (rupee @ ''45,000'')),
             rating = Some 4.1, link = Some (JStr ''https://amazon.in/fallback-b'')\<rparr>]"
    by (simp add: fallback_amazon_def)
  have bounds: "amazon \<noteq> []" "length amazon \<le> 5" "google \<noteq> []" "length google \<le> 5"
    using a g by simp_all
  show ?thesis
    by (intro conjI) (fact bounds A1 A2 A3 A4 A5 A6 G1 G2 G3 G4 G5 G6 P1 P2 fb fallback_google_length)+
qed

text \<open>
  Status 500, a request that raises, a response without entries, and a response with one
  entry for each provider.
\<close>

theorem search_never_empty_witness:
  "fst (search_amazon_products (example_runtime (\<lambda>r. Response 500 None)) ''iPhone 14'' empty_world)
     = fallback_amazon
   \<and> fst (search_google_shopping (example_runtime (\<lambda>r. Raises)) ''iPhone 14'' empty_world)
     = fallback_google
   \<and> fst (search_amazon_products (example_runtime (answering (JObj []) google_body)) ''iPhone 14'' empty_world)
     = fallback_amazon
   \<and> fst (search_amazon_products (example_runtime (answering amazon_body google_body)) ''iPhone 14'' empty_world)
     = [item_a]
   \<and> fst (search_google_shopping (example_runtime (answering amazon_body google_body)) ''iPhone 14'' empty_world)
     = [item_b]"
proof -
  let ?ok = "example_runtime (answering amazon_body google_body)"
  let ?empty = "example_runtime (answering (JObj []) google_body)"
  have answers:
    "requests_get (example_runtime (\<lambda>r. Response 500 None))
       (amazon_request (example_runtime (\<lambda>r. Response 500 None)) ''iPhone 14'') = Response 500 None"
    "requests_get (example_runtime (\<lambda>r. Raises))
       (google_request (example_runtime (\<lambda>r. Raises)) ''iPhone 14'') = Raises"
    "requests_get ?empty (amazon_request ?empty ''iPhone 14'') = Response 200 (Some (JObj []))"
    "requests_get ?ok (amazon_request ?ok ''iPhone 14'') = Response 200 (Some amazon_body)"
    "requests_get ?ok (google_request ?ok ''iPhone 14'') = Response 200 (Some google_body)"
    by (simp_all add: example_runtime_def answering_def amazon_request_def google_request_def)
  have parsed: "amazon_parse ?empty (JObj []) = Inr []"
    by (simp add: amazon_parse_def dict_get_def)
  have ne: "[item_a] \<noteq> []" "[item_b] \<noteq> []"
    by simp_all
  have 1: "fst (search_amazon_products (example_runtime (\<lambda>r. Response 500 None)) ''iPhone 14'' empty_world)
      = fallback_amazon"
    using search_never_empty [of "example_runtime (\<lambda>r. Response 500 None)" "''iPhone 14''" empty_world]
    by (simp add: answers(1))
  have 2: "fst (search_google_shopping (example_runtime (\<lambda>r. Raises)) ''iPhone 14'' empty_world)
      = fallback_google"
    using search_never_empty [of "example_runtime (\<lambda>r. Raises)" "''iPhone 14''" empty_world]
    by (simp add: answers(2))
  have 3: "fst (search_amazon_products ?empty ''iPhone 14'' empty_world) = fallback_amazon"
    using search_never_empty [of ?empty "''iPhone 14''" empty_world]
    by (simp add: answers(3) parsed)
  have 4: "fst (search_amazon_products ?ok ''iPhone 14'' empty_world) = [item_a]"
    using search_never_empty [of ?ok "''iPhone 14''" empty_world]
    by (simp add: answers(4) example_amazon_parse)
  have 5: "fst (search_google_shopping ?ok ''iPhone 14'' empty_world) = [item_b]"
    using search_never_empty [of ?ok "''iPhone 14''" empty_world]
    by (simp add: answers(5) example_google_parse)
  show ?thesis
    using 1 2 3 4 5 by simp
qed

section \<open>Entries with missing or unusable fields\<close>

lemma collect_fails:
  "p \<in> set items \<Longrightarrow> f p = Inl e \<Longrightarrow> \<exists>e'. collect f items acc = Inl e'"
proof (induction items arbitrary: acc)
  case Nil
  then show ?case by simp
next
  case (Cons a items)
  show ?case
  proof (cases "f a")
    case (Inl e')
    then show ?thesis by simp
  next
    case (Inr r)
    then have "p \<in> set items"
      using Cons.prems by auto
    then show ?thesis
      using Cons.IH [OF _ Cons.prems(2)] Inr by simp
  qed
qed

lemma amazon_product_object:
  "amazon_product rt (JObj d) =
     (case py_float (float_of_str rt) (py_or (dict_get d ''product_star_rating'' (JStr ''0'')) (JInt 0)) of
        Inl e \<Rightarrow> Inl e
      | Inr r \<Rightarrow>
          Inr \<lparr>title = Some (dict_get d ''product_title'' JNull),
               price = Some (dict_get d ''product_price'' JNull),
               rating = Some r,
               link = Some (py_or (dict_get d ''product_url'' JNull) (JStr ''Link not available''))\<rparr>)"
  by (simp add: amazon_product_def split: sum.splits)

lemma google_product_object:
  "google_product rt (JObj d) =
     (case py_float (float_of_str rt) (dict_get d ''rating'' (JFloat 0)) of
        Inl e \<Rightarrow> Inl e
      | Inr r \<Rightarrow>
          Inr \<lparr>title = Some (dict_get d ''title'' JNull),
               price = Some (dict_get d ''price'' (JStr ''N/A'')),
               rating = Some r,
               link = Some (dict_get d ''link'' JNull)\<rparr>)"
  by (simp add: google_product_def split: sum.splits)

lemma amazon_entry_fails:
  assumes "requests_get rt (amazon_request rt q) = Response 200 (Some (JObj d))"
    and "map_of d ''data'' = Some (JObj d')" and "map_of d' ''products'' = Some (JArr entries)"
    and "p \<in> set (take 5 entries)" and "amazon_product rt p = Inl e"
  shows "fst (search_amazon_products rt q w) = fallback_amazon"
proof -
  obtain e' where "amazon_parse rt (JObj d) = Inl e'"
    using collect_fails [where f = "amazon_product rt" and acc = "[]", OF assms(4) assms(5)] assms(2) assms(3)
    by (auto simp: amazon_parse_def dict_get_def)
  then show ?thesis
    using assms(1) by (simp add: amazon_cases)
qed

lemma google_entry_fails:
  assumes "requests_get rt (google_request rt q) = Response 200 (Some (JObj d))"
    and "map_of d ''shopping_results'' = Some (JArr entries)"
    and "p \<in> set (take 5 entries)" and "google_product rt p = Inl e"
  shows "fst (search_google_shopping rt q w) = fallback_google"
proof -
  obtain e' where "google_parse rt (JObj d) = Inl e'"
    using collect_fails [where f = "google_product rt" and acc = "[]", OF assms(3) assms(4)] assms(2)
    by (auto simp: google_parse_def dict_get_def)
  then show ?thesis
    using assms(1) by (simp add: google_cases)
qed

lemma collect_all:
  "\<forall>p\<in>set items. \<exists>r. f p = Inr r \<Longrightarrow> \<exists>rs. collect f items acc = Inr (acc @ rs) \<and> length rs = length items"
proof (induction items arbitrary: acc)
  case Nil
  then show ?case by simp
next
  case (Cons a items)
  then obtain r where r: "f a = Inr r"
    by auto
  obtain rs where "collect f items (acc @ [r]) = Inr ((acc @ [r]) @ rs) \<and> length rs = length items"
    using Cons.IH [of "acc @ [r]"] Cons.prems by auto
  then show ?case
    using r by (intro exI [of _ "r # rs"]) simp
qed

lemma amazon_entries_kept:
  assumes "requests_get rt (amazon_request rt q) = Response 200 (Some (JObj d))"
    and "map_of d ''data'' = Some (JObj d')" and "map_of d' ''products'' = Some (JArr entries)"
    and "entries \<noteq> []" and "\<forall>p\<in>set (take 5 entries). \<exists>r. amazon_product rt p = Inr r"
  shows "list_all2 (\<lambda>p r. amazon_product rt p = Inr r) (take 5 entries) (fst (search_amazon_products rt q w))"
proof -
  obtain rs where rs: "collect (amazon_product rt) (take 5 entries) [] = Inr rs" "length rs = length (take 5 entries)"
    using collect_all [OF assms(5), of "[]"] by auto
  then have parse: "amazon_parse rt (JObj d) = Inr rs"
    using assms(2) assms(3) by (simp add: amazon_parse_def dict_get_def)
  have "rs \<noteq> []"
    using rs(2) assms(4) by (cases entries) auto
  then have "fst (search_amazon_products rt q w) = rs"
    using assms(1) parse by (simp add: amazon_cases)
  then show ?thesis
    using rs(1) by (simp add: collect_records)
qed

lemma google_entries_kept:
  assumes "requests_get rt (google_request rt q) = Response 200 (Some (JObj d))"
    and "map_of d ''shopping_results'' = Some (JArr entries)"
    and "entries \<noteq> []" and "\<forall>p\<in>set (take 5 entries). \<exists>r. google_product rt p = Inr r"
  shows "list_all2 (\<lambda>p r. google_product rt p = Inr r) (take 5 entries) (fst (search_google_shopping rt q w))"
proof -
  obtain rs where rs: "collect (google_product rt) (take 5 entries) [] = Inr rs" "length rs = length (take 5 entries)"
    using collect_all [OF assms(4), of "[]"] by auto
  then have parse: "google_parse rt (JObj d) = Inr rs"
    using assms(2) by (simp add: google_parse_def dict_get_def)
  have "rs \<noteq> []"
    using rs(2) assms(3) by (cases entries) auto
  then have "fst (search_google_shopping rt q w) = rs"
    using assms(1) parse by (simp add: google_cases)
  then show ?thesis
    using rs(1) by (simp add: collect_records)
qed

text \<open>
  Claim C3, as amended. For an entry of a status-200 response that is a JSON object, a
  missing field raises nothing: the record is built, with all four keys. Provider A gives
  a rating that is missing, \<^verbatim>\<open>null\<close>, empty or zero the value 0.0 and a link that is missing
  or empty the value \<^verbatim>\<open>"Link not available"\<close>; provider B gives a missing price the value
  \<^verbatim>\<open>"N/A"\<close> and a missing rating the value 0.0; a missing title is \<^verbatim>\<open>None\<close> for both.
  (Nothing is said here of a missing price of provider A and a missing link of provider
  B.) When the rating of every one of the first five entries can be converted, the client
  returns one record per entry, whatever other fields are missing. A rating that is
  present and cannot be converted to a float has no default: building the record raises,
  and the client returns its fallback list in place of the whole result.
\<close>

theorem entry_defaults:
  fixes rt :: runtime and q :: string and w :: world
  shows "(\<forall>d r. py_float (float_of_str rt) (py_or (dict_get d ''product_star_rating'' (JStr ''0'')) (JInt 0)) = Inr r
            \<longrightarrow> (\<exists>pr. amazon_product rt (JObj d) =
                  Inr \<lparr>title = Some (dict_get d ''product_title'' JNull),
                       price = Some pr,
                       rating = Some r,
                       link = Some (py_or (dict_get d ''product_url'' JNull) (JStr ''Link not available''))\<rparr>))
       \<and> (\<forall>d r. py_float (float_of_str rt) (dict_get d ''rating'' (JFloat 0)) = Inr r
            \<longrightarrow> (\<exists>l. google_product rt (JObj d) =
                  Inr \<lparr>title = Some (dict_get d ''title'' JNull),
                       price = Some (dict_get d ''price'' (JStr ''N/A'')),
                       rating = Some r,
                       link = Some l\<rparr>))
       \<and> (\<forall>d k dflt. map_of d k = None \<longrightarrow> dict_get d k dflt = dflt)
       \<and> (\<forall>d. float_of_str rt ''0'' = Some 0 \<and> map_of d ''product_star_rating'' = None
            \<longrightarrow> py_float (float_of_str rt) (py_or (dict_get d ''product_star_rating'' (JStr ''0'')) (JInt 0)) = Inr 0)
       \<and> (\<forall>d v. map_of d ''product_star_rating'' = Some v \<and> \<not> truthy v
            \<longrightarrow> py_float (float_of_str rt) (py_or (dict_get d ''product_star_rating'' (JStr ''0'')) (JInt 0)) = Inr 0)
       \<and> (\<forall>d. \<not> truthy (dict_get d ''product_url'' JNull)
            \<longrightarrow> py_or (dict_get d ''product_url'' JNull) (JStr ''Link not available'') = JStr ''Link not available'')
       \<and> (\<forall>d. map_of d ''rating'' = None
            \<longrightarrow> py_float (float_of_str rt) (dict_get d ''rating'' (JFloat 0)) = Inr 0)
       \<and> (\<forall>d d' entries.
             requests_get rt (amazon_request rt q) = Response 200 (Some (JObj d))
             \<and> map_of d ''data'' = Some (JObj d') \<and> map_of d' ''products'' = Some (JArr entries)
             \<and> entries \<noteq> [] \<and> (\<forall>p\<in>set (take 5 entries). \<exists>r. amazon_product rt p = Inr r)
            \<longrightarrow> list_all2 (\<lambda>p r. amazon_product rt p = Inr r) (take 5 entries)
                  (fst (search_amazon_products rt q w)))
       \<and> (\<forall>d entries.
             requests_get rt (google_request rt q) = Response 200 (Some (JObj d))
             \<and> map_of d ''shopping_results'' = Some (JArr entries)
             \<and> entries \<noteq> [] \<and> (\<forall>p\<in>set (take 5 entries). \<exists>r. google_product rt p = Inr r)
            \<longrightarrow> list_all2 (\<lambda>p r. google_product rt p = Inr r) (take 5 entries)
                  (fst (search_google_shopping rt q w)))
       \<and> (\<forall>d e. py_float (float_of_str rt) (py_or (dict_get d ''product_star_rating'' (JStr ''0'')) (JInt 0)) = Inl e
            \<longrightarrow> amazon_product rt (JObj d) = Inl e)
       \<and> (\<forall>d e. py_float (float_of_str rt) (dict_get d ''rating'' (JFloat 0)) = Inl e
            \<longrightarrow> google_product rt (JObj d) = Inl e)
       \<and> (\<forall>d d' entries p e.
             requests_get rt (amazon_request rt q) = Response 200 (Some (JObj d))
             \<and> map_of d ''data'' = Some (JObj d') \<and> map_of d' ''products'' = Some (JArr entries)
             \<and> p \<in> set (take 5 entries) \<and> amazon_product rt p = Inl e
            \<longrightarrow> fst (search_amazon_products rt q w) = fallback_amazon)
       \<and> (\<forall>d entries p e.
             requests_get rt (google_request rt q) = Response 200 (Some (JObj d))
             \<and> map_of d ''shopping_results'' = Some (JArr entries)
             \<and> p \<in> set (take 5 entries) \<and> google_product rt p = Inl e
            \<longrightarrow> fst (search_google_shopping rt q w) = fallback_google)"
proof -
  have A: "\<forall>d r. py_float (float_of_str rt) (py_or (dict_get d ''product_star_rating'' (JStr ''0'')) (JInt 0)) = Inr r
            \<longrightarrow> (\<exists>pr. amazon_product rt (JObj d) =
                  Inr \<lparr>title = Some (dict_get d ''product_title'' JNull),
                       price = Some pr,
                       rating = Some r,
                       link = Some (py_or (dict_get d ''product_url'' JNull) (JStr ''Link not available''))\<rparr>)"
    by (simp add: amazon_product_object)
  have G: "\<forall>d r. py_float (float_of_str rt) (dict_get d ''rating'' (JFloat 0)) = Inr r
            \<longrightarrow> (\<exists>l. google_product rt (JObj d) =
                  Inr \<lparr>title = Some (dict_get d ''title'' JNull),
                       price = Some (dict_get d ''price'' (JStr ''N/A'')),
                       rating = Some r,
                       link = Some l\<rparr>)"
    by (simp add: google_product_object)
  have D: "\<forall>d k dflt. map_of d k = None \<longrightarrow> dict_get d k dflt = dflt"
    by (simp add: dict_get_def)
  have R1: "\<forall>d. float_of_str rt ''0'' = Some 0 \<and> map_of d ''product_star_rating'' = None
            \<longrightarrow> py_float (float_of_str rt) (py_or (dict_get d ''product_star_rating'' (JStr ''0'')) (JInt 0)) = Inr 0"
    by (simp add: dict_get_def py_or_def)
  have R2: "\<forall>d v. map_of d ''product_star_rating'' = Some v \<and> \<not> truthy v
            \<longrightarrow> py_float (float_of_str rt) (py_or (dict_get d ''product_star_rating'' (JStr ''0'')) (JInt 0)) = Inr 0"
    by (simp add: dict_get_def py_or_def)
  have L: "\<forall>d. \<not> truthy (dict_get d ''product_url'' JNull)
            \<longrightarrow> py_or (dict_get d ''product_url'' JNull) (JStr ''Link not available'') = JStr ''Link not available''"
    by (simp add: py_or_def)
  have R3: "\<forall>d. map_of d ''rating'' = None
            \<longrightarrow> py_float (float_of_str rt) (dict_get d ''rating'' (JFloat 0)) = Inr 0"
    by (simp add: dict_get_def)
  have KA: "\<forall>d d' entries.
             requests_get rt (amazon_request rt q) = Response 200 (Some (JObj d))
             \<and> map_of d ''data'' = Some (JObj d') \<and> map_of d' ''products'' = Some (JArr entries)
             \<and> entries \<noteq> [] \<and> (\<forall>p\<in>set (take 5 entries). \<exists>r. amazon_product rt p = Inr r)
            \<longrightarrow> list_all2 (\<lambda>p r. amazon_product rt p = Inr r) (take 5 entries)
                  (fst (search_amazon_products rt q w))"
    using amazon_entries_kept [of rt q _ _ _ w] by blast
  have KG: "\<forall>d entries.
             requests_get rt (google_request rt q) = Response 200 (Some (JObj d))
             \<and> map_of d ''shopping_results'' = Some (JArr entries)
             \<and> entries \<noteq> [] \<and> (\<forall>p\<in>set (take 5 entries). \<exists>r. google_product rt p = Inr r)
            \<longrightarrow> list_all2 (\<lambda>p r. google_product rt p = Inr r) (take 5 entries)
                  (fst (search_google_shopping rt q w))"
    using google_entries_kept [of rt q _ _ w] by blast
  have FA: "\<forall>d e. py_float (float_of_str rt) (py_or (dict_get d ''product_star_rating'' (JStr ''0'')) (JInt 0)) = Inl e
            \<longrightarrow> amazon_product rt (JObj d) = Inl e"
    by (simp add: amazon_product_object)
  have FG: "\<forall>d e. py_float (float_of_str rt) (dict_get d ''rating'' (JFloat 0)) = Inl e
            \<longrightarrow> google_product rt (JObj d) = Inl e"
    by (simp add: google_product_object)
  have XA: "\<forall>d d' entries p e.
             requests_get rt (amazon_request rt q) = Response 200 (Some (JObj d))
             \<and> map_of d ''data'' = Some (JObj d') \<and> map_of d' ''products'' = Some (JArr entries)
             \<and> p \<in> set (take 5 entries) \<and> amazon_product rt p = Inl e
            \<longrightarrow> fst (search_amazon_products rt q w) = fallback_amazon"
    using amazon_entry_fails [of rt q _ _ _ _ _ w] by blast
  have XG: "\<forall>d entries p e.
             requests_get rt (google_request rt q) = Response 200 (Some (JObj d))
             \<and> map_of d ''shopping_results'' = Some (JArr entries)
             \<and> p \<in> set (take 5 entries) \<and> google_product rt p = Inl e
            \<longrightarrow> fst (search_google_shopping rt q w) = fallback_google"
    using google_entry_fails [of rt q _ _ _ _ w] by blast
  show ?thesis
    by (intro conjI) (fact A G D R1 R2 L R3 KA KG FA FG XA XG)+
qed

lemma example_answers:
  "requests_get (example_runtime (answering a g)) (amazon_request (example_runtime (answering a g)) q)
     = Response 200 (Some a)"
  "requests_get (example_runtime (answering a g)) (google_request (example_runtime (answering a g)) q)
     = Response 200 (Some g)"
  by (simp_all add: example_runtime_def answering_def amazon_request_def google_request_def)

lemma example_float_of_str_runtime: "float_of_str (example_runtime net) = example_float_of_str"
  by (simp add: example_runtime_def)

text \<open>
  An entry of each provider that has a title only, and a response of provider B whose
  first entry has the rating \<^verbatim>\<open>null\<close>.
\<close>

theorem entry_defaults_witness:
  "example_float_of_str ''0'' = Some 0
   \<and> (\<exists>pr. amazon_product (example_runtime (\<lambda>r. Raises)) (JObj [(''product_title'', JStr ''iPhone 14 (128 GB)'')])
       = Inr \<lparr>title = Some (JStr ''iPhone 14 (128 GB)''), price = Some pr, rating = Some 0,
              link = Some (JStr ''Link not available'')\<rparr>)
   \<and> (\<exists>l. google_product (example_runtime (\<lambda>r. Raises)) (JObj [(''title'', JStr ''Apple iPhone 14'')])
       = Inr \<lparr>title = Some (JStr ''Apple iPhone 14''), price = Some (JStr ''N/A''), rating = Some 0,
              link = Some l\<rparr>)
   \<and> fst (search_google_shopping (example_runtime (answering amazon_body_bad_rating google_body_null_rating))
          ''iPhone 14'' empty_world) = fallback_google"
proof -
  let ?rt = "example_runtime (\<lambda>r. Raises)"
  let ?bad = "example_runtime (answering amazon_body_bad_rating google_body_null_rating)"
  let ?a = "[(''product_title'', JStr ''iPhone 14 (128 GB)'')]"
  let ?g = "[(''title'', JStr ''Apple iPhone 14'')]"
  let ?n = "JObj [(''title'', JStr ''iPhone 14 case''), (''price'', JStr ''499''), (''rating'', JNull),
                  (''link'', JStr ''https://shop.example/3'')]"
  note inst = entry_defaults [of ?rt "''iPhone 14''" empty_world]
  note bad = entry_defaults [of ?bad "''iPhone 14''" empty_world]
  have zero: "example_float_of_str ''0'' = Some 0"
    by (simp add: example_float_of_str_def)
  have ra: "py_float (float_of_str ?rt) (py_or (dict_get ?a ''product_star_rating'' (JStr ''0'')) (JInt 0)) = Inr 0"
    using inst [THEN conjunct2, THEN conjunct2, THEN conjunct2, THEN conjunct1, rule_format, of ?a] zero
    by (simp add: example_float_of_str_runtime)
  have 1: "\<exists>pr. amazon_product ?rt (JObj ?a) =
      Inr \<lparr>title = Some (JStr ''iPhone 14 (128 GB)''), price = Some pr, rating = Some 0,
           link = Some (JStr ''Link not available'')\<rparr>"
    using inst [THEN conjunct1, rule_format, OF ra] by (simp add: dict_get_def py_or_def)
  have rg: "py_float (float_of_str ?rt) (dict_get ?g ''rating'' (JFloat 0)) = Inr 0"
    by (simp add: dict_get_def)
  have 2: "\<exists>l. google_product ?rt (JObj ?g) =
      Inr \<lparr>title = Some (JStr ''Apple iPhone 14''), price = Some (JStr ''N/A''), rating = Some 0,
           link = Some l\<rparr>"
    using inst [THEN conjunct2, THEN conjunct1, rule_format, OF rg] by (simp add: dict_get_def)
  have "google_product ?bad ?n = Inl TypeError"
    by (simp add: google_product_def dict_get_def)
  moreover have "?n \<in> set (take 5 [?n, JObj [(''title'', JStr ''Apple iPhone 14''), (''price'', JStr ''59,900''),
      (''rating'', JFloat 4.0), (''link'', JStr ''https://shop.example/2'')]])"
    by simp
  ultimately have 3: "fst (search_google_shopping ?bad ''iPhone 14'' empty_world) = fallback_google"
    using bad [THEN conjunct2, THEN conjunct2, THEN conjunct2, THEN conjunct2, THEN conjunct2,
        THEN conjunct2, THEN conjunct2, THEN conjunct2, THEN conjunct2, THEN conjunct2,
        THEN conjunct2, THEN conjunct2, rule_format,
        of "[(''shopping_results'', JArr [?n, JObj [(''title'', JStr ''Apple iPhone 14''),
          (''price'', JStr ''59,900''), (''rating'', JFloat 4.0), (''link'', JStr ''https://shop.example/2'')]])]"
          _ ?n TypeError]
      example_answers(2) [of amazon_body_bad_rating google_body_null_rating "''iPhone 14''"]
    by (simp add: google_body_null_rating_def)
  show ?thesis
    using zero 1 2 3 by simp
qed

text \<open>
  Claim C3 as stated fails. An entry of provider A without a price gets the price
  \<^verbatim>\<open>None\<close>, not \<^verbatim>\<open>"N/A"\<close>; an entry of provider B without a link gets the link \<^verbatim>\<open>None\<close>, not
  the sentinel; and one entry with an unusable rating (a text that is not a number for
  provider A, \<^verbatim>\<open>null\<close> for provider B) makes the client drop every entry of the response,
  the usable one too, and return its fallback list.
\<close>

theorem entry_defaults_counterexample:
  "fst (search_amazon_products (example_runtime (answering amazon_body_sparse google_body_sparse))
          ''iPhone 14'' empty_world)
     = [\<lparr>title = Some (JStr ''iPhone 14 (128 GB)''), price = Some JNull, rating = Some 0,
          link = Some (JStr ''Link not available'')\<rparr>]
   \<and> Some JNull \<noteq> Some (JStr ''N/A'')
   \<and> fst (search_google_shopping (example_runtime (answering amazon_body_sparse google_body_sparse))
          ''iPhone 14'' empty_world)
     = [\<lparr>title = Some (JStr ''Apple iPhone 14''), price = Some (JStr ''N/A''), rating = Some 0,
          link = Some JNull\<rparr>]
   \<and> Some JNull \<noteq> Some (JStr ''Link not available'')
   \<and> fst (search_amazon_products (example_runtime (answering amazon_body_bad_rating google_body_null_rating))
          ''iPhone 14'' empty_world) = fallback_amazon
   \<and> fst (search_google_shopping (example_runtime (answering amazon_body_bad_rating google_body_null_rating))
          ''iPhone 14'' empty_world) = fallback_google"
proof -
  let ?sparse = "example_runtime (answering amazon_body_sparse google_body_sparse)"
  let ?bad = "example_runtime (answering amazon_body_bad_rating google_body_null_rating)"
  have "amazon_parse ?sparse amazon_body_sparse =
      Inr [\<lparr>title = Some (JStr ''iPhone 14 (128 GB)''), price = Some JNull, rating = Some 0,
            link = Some (JStr ''Link not available'')\<rparr>]"
    by (simp add: amazon_parse_def amazon_body_sparse_def amazon_product_def dict_get_def py_or_def
        example_float_of_str_runtime example_float_of_str_def)
  then have 1: "fst (search_amazon_products ?sparse ''iPhone 14'' empty_world) =
      [\<lparr>title = Some (JStr ''iPhone 14 (128 GB)''), price = Some JNull, rating = Some 0,
        link = Some (JStr ''Link not available'')\<rparr>]"
    by (simp add: amazon_cases example_answers)
  have "google_parse ?sparse google_body_sparse =
      Inr [\<lparr>title = Some (JStr ''Apple iPhone 14''), price = Some (JStr ''N/A''), rating = Some 0,
            link = Some JNull\<rparr>]"
    by (simp add: google_parse_def google_body_sparse_def google_product_def dict_get_def)
  then have 2: "fst (search_google_shopping ?sparse ''iPhone 14'' empty_world) =
      [\<lparr>title = Some (JStr ''Apple iPhone 14''), price = Some (JStr ''N/A''), rating = Some 0,
        link = Some JNull\<rparr>]"
    by (simp add: google_cases example_answers)
  have "amazon_parse ?bad amazon_body_bad_rating = Inl ValueError"
    by (simp add: amazon_parse_def amazon_body_bad_rating_def amazon_product_def dict_get_def py_or_def
        example_float_of_str_runtime example_float_of_str_def)
  then have 3: "fst (search_amazon_products ?bad ''iPhone 14'' empty_world) = fallback_amazon"
    by (simp add: amazon_cases example_answers)
  have "google_parse ?bad google_body_null_rating = Inl TypeError"
    by (simp add: google_parse_def google_body_null_rating_def google_product_def dict_get_def)
  then have 4: "fst (search_google_shopping ?bad ''iPhone 14'' empty_world) = fallback_google"
    by (simp add: google_cases example_answers)
  show ?thesis
    using 1 2 3 4 by simp
qed

end
